theory Spec2Isabelle
  imports
    Main
    "HOL-Library.Multiset"
    "HOL-Library.Char_ord"
    "HOL-Library.List_Lexorder"
    "HOL-Library.Sublist"
begin

section \<open>The department web site backend (app.py)\<close>

text \<open>
  A shallow embedding of the Flask application \<^verbatim>\<open>app.py\<close>: the SQLite store is a record
  of four optional tables, every route handler is a function from the request and the
  store to the new store and the response, and every exception the Python raises is a
  value that the handler's \<^verbatim>\<open>except Exception\<close> clause turns into a 500 response.

  Text is kept as UTF-8 bytes (\<open>string\<close>), which is what SQLite stores and compares.
  JSON numbers are restricted to integers; floating-point numbers are outside the model.
  A rowid is a signed 64-bit integer in SQLite. The handlers' inserts fail on a table that
  has held the largest rowid, and an id of the URL that does not fit in 64 bits cannot be
  bound to a statement; the sample rows of \<^verbatim>\<open>init_db\<close> are inserted without that check.
\<close>

subsection \<open>JSON values and Python dictionaries\<close>

datatype json =
    JNull
  | JBool bool
  | JNum int
  | JStr string
  | JArr "json list"
  | JObj "(string \<times> json) list"

text \<open>Python truthiness, as tested by \<^verbatim>\<open>if not data.get(field)\<close> and \<^verbatim>\<open>1 if v else 0\<close>.\<close>

fun truthy :: "json \<Rightarrow> bool" where
  "truthy JNull = False"
| "truthy (JBool b) = b"
| "truthy (JNum n) = (n \<noteq> 0)"
| "truthy (JStr s) = (s \<noteq> [])"
| "truthy (JArr xs) = (xs \<noteq> [])"
| "truthy (JObj kvs) = (kvs \<noteq> [])"

text \<open>
  A parsed JSON object is a Python dict, kept as an association list in which the first
  binding of a key is the dict's entry. \<^verbatim>\<open>data.get(k)\<close> is \<open>get kvs k\<close>, with None
  (JSON null) for a missing key; \<^verbatim>\<open>data.get(k, d)\<close> is \<open>get_default kvs k d\<close>.
\<close>

definition get :: "(string \<times> json) list \<Rightarrow> string \<Rightarrow> json" where
  "get kvs k = (case map_of kvs k of None \<Rightarrow> JNull | Some v \<Rightarrow> v)"

definition get_default :: "(string \<times> json) list \<Rightarrow> string \<Rightarrow> json \<Rightarrow> json" where
  "get_default kvs k d = (case map_of kvs k of None \<Rightarrow> d | Some v \<Rightarrow> v)"

subsection \<open>Exceptions and responses\<close>

text \<open>
  The exceptions that reach a handler's \<^verbatim>\<open>except Exception\<close> clause:
  \<^item> \<open>BadRequest\<close>: \<^verbatim>\<open>request.get_json()\<close> found no parsable JSON body;
  \<^item> \<open>AttributeError\<close>: \<^verbatim>\<open>.get\<close> on a body that is not a dict, or \<^verbatim>\<open>.strip\<close> on a
    value that is not a str;
  \<^item> \<open>KeyError\<close>: \<^verbatim>\<open>data[k]\<close> for a missing key;
  \<^item> \<open>OperationalError\<close>: the statement names a table that does not exist;
  \<^item> \<open>ProgrammingError\<close>: a parameter of a type sqlite3 cannot bind (list, dict);
  \<^item> \<open>OverflowError\<close>: an integer parameter outside 64 bits;
  \<^item> \<open>IntegrityError\<close>: a NOT NULL constraint failed.
\<close>

datatype exc =
    BadRequest
  | AttributeError
  | KeyError
  | OperationalError
  | ProgrammingError
  | OverflowError
  | IntegrityError

text \<open>
  A response body is the JSON document given to \<^verbatim>\<open>jsonify\<close>. \<open>Failure e\<close> is the body
  \<^verbatim>\<open>{'success': False, 'error': str(e)}\<close> of the \<^verbatim>\<open>except\<close> clause, whose text is
  chosen by the library that raised \<open>e\<close>.
\<close>

datatype body = Envelope json | Failure exc

type_synonym response = "body \<times> nat"

definition failed :: "exc \<Rightarrow> response" where
  "failed e = (Failure e, 500)"

definition then_do :: "exc + 'a \<Rightarrow> ('a \<Rightarrow> exc + 'b) \<Rightarrow> exc + 'b" where
  "then_do r f = (case r of Inl e \<Rightarrow> Inl e | Inr x \<Rightarrow> f x)"

subsection \<open>Python string methods\<close>

text \<open>
  \<^verbatim>\<open>str.strip()\<close> removes the code points for which \<^verbatim>\<open>str.isspace\<close> holds from both
  ends; \<open>whitespace\<close> lists their UTF-8 encodings (U+0009..U+000D, U+001C..U+0020,
  U+0085, U+00A0, U+1680, U+2000..U+200A, U+2028, U+2029, U+202F, U+205F, U+3000).
\<close>

definition whitespace :: "string list" where
  "whitespace =
    map (\<lambda>n. [char_of (n::nat)]) [9, 10, 11, 12, 13, 28, 29, 30, 31, 32] @
    map (map (char_of :: nat \<Rightarrow> char))
     [[0xC2, 0x85], [0xC2, 0xA0], [0xE1, 0x9A, 0x80],
      [0xE2, 0x80, 0x80], [0xE2, 0x80, 0x81], [0xE2, 0x80, 0x82], [0xE2, 0x80, 0x83],
      [0xE2, 0x80, 0x84], [0xE2, 0x80, 0x85], [0xE2, 0x80, 0x86], [0xE2, 0x80, 0x87],
      [0xE2, 0x80, 0x88], [0xE2, 0x80, 0x89], [0xE2, 0x80, 0x8A],
      [0xE2, 0x80, 0xA8], [0xE2, 0x80, 0xA9], [0xE2, 0x80, 0xAF],
      [0xE2, 0x81, 0x9F], [0xE3, 0x80, 0x80]]"

fun lstrip_with :: "string list \<Rightarrow> string \<Rightarrow> string" where
  "lstrip_with ws [] = []"
| "lstrip_with ws (c # cs) =
     (case find (\<lambda>w. take (length w) (c # cs) = w) ws of
        None \<Rightarrow> c # cs
      | Some w \<Rightarrow> lstrip_with ws (drop (length w - 1) cs))"

definition strip :: "string \<Rightarrow> string" where
  "strip s = rev (lstrip_with (map rev whitespace) (rev (lstrip_with whitespace s)))"

text \<open>
  \<^verbatim>\<open>str.lower()\<close> on the ASCII letters. Python also maps letters outside ASCII, but the
  only code points whose lower-case form contains an ASCII character are U+212A (to k)
  and U+0130 (to i followed by U+0307); every word this program compares a lower-cased
  string with (admin, staff, true) has no k and no U+0307, so the comparisons are
  decided by the ASCII mapping.
\<close>

definition lower_char :: "char \<Rightarrow> char" where
  "lower_char c =
     (let n = (of_char c :: nat) in if 65 \<le> n \<and> n \<le> 90 then char_of (n + 32) else c)"

definition lower :: "string \<Rightarrow> string" where
  "lower s = map lower_char s"

subsection \<open>Credential check\<close>

definition ADMIN_CREDENTIALS :: "(string \<times> string) list" where
  "ADMIN_CREDENTIALS = [(''admin'', ''smvec2024''), (''staff'', ''aidsstaff123'')]"

definition admin_login :: "json option \<Rightarrow> response" where
  "admin_login req =
     (case req of
        None \<Rightarrow> failed BadRequest
      | Some (JObj kvs) \<Rightarrow>
          (case get_default kvs ''username'' (JStr []) of
             JStr u \<Rightarrow>
               (let username = lower (strip u);
                    password = get_default kvs ''password'' (JStr [])
                in if username \<in> set (map fst ADMIN_CREDENTIALS) \<and>
                      map_option JStr (map_of ADMIN_CREDENTIALS username) = Some password
                   then (Envelope (JObj [(''success'', JBool True),
                                         (''message'', JStr ''Login successful''),
                                         (''user'', JStr username)]), 200)
                   else (Envelope (JObj [(''success'', JBool False),
                                         (''error'', JStr ''Invalid username or password'')]), 401))
           | _ \<Rightarrow> failed AttributeError)
      | Some _ \<Rightarrow> failed AttributeError)"

subsection \<open>The store: SQL values, rows and tables\<close>

text \<open>
  A statement parameter after sqlite3 has bound it: None becomes NULL, a bool or an int
  becomes an INTEGER, a str becomes TEXT. A list or a dict cannot be bound, and an int
  outside 64 bits overflows.
\<close>

datatype sqlval = SNull | SInt int | SText string

fun bind :: "json \<Rightarrow> exc + sqlval" where
  "bind JNull = Inr SNull"
| "bind (JBool b) = Inr (SInt (if b then 1 else 0))"
| "bind (JNum n) =
     (if - (2 ^ 63) \<le> n \<and> n < 2 ^ 63 then Inr (SInt n) else Inl OverflowError)"
| "bind (JStr s) = Inr (SText s)"
| "bind (JArr xs) = Inl ProgrammingError"
| "bind (JObj kvs) = Inl ProgrammingError"

text \<open>
  A column declared TEXT has TEXT affinity: an INTEGER stored into it is converted to
  its decimal text. \<open>None\<close> is NULL.
\<close>

function decimal_nat :: "nat \<Rightarrow> string" where
  "decimal_nat n =
     (if n < 10 then [char_of (48 + n)]
      else decimal_nat (n div 10) @ [char_of (48 + n mod 10)])"
  by pat_completeness auto
termination
  by (relation "measure (\<lambda>n. n)") auto

declare decimal_nat.simps [simp del]

definition decimal :: "int \<Rightarrow> string" where
  "decimal i = (if i < 0 then CHR ''-'' # decimal_nat (nat (- i)) else decimal_nat (nat i))"

fun text_affinity :: "sqlval \<Rightarrow> string option" where
  "text_affinity SNull = None"
| "text_affinity (SInt i) = Some (decimal i)"
| "text_affinity (SText s) = Some s"

text \<open>A column declared \<^verbatim>\<open>TEXT NOT NULL\<close>: storing NULL fails the constraint.\<close>

definition text_not_null :: "sqlval \<Rightarrow> exc + string" where
  "text_not_null v = (case text_affinity v of None \<Rightarrow> Inl IntegrityError | Some s \<Rightarrow> Inr s)"

text \<open>
  The rows of the four tables, one field per column of the \<^verbatim>\<open>CREATE TABLE\<close> statements
  of \<^verbatim>\<open>init_db\<close>. A \<^verbatim>\<open>NOT NULL\<close> text column is a \<open>string\<close>, a nullable one a
  \<open>string option\<close>. The INTEGER flags only ever receive the integers the handlers
  compute. \<^verbatim>\<open>created_at\<close> holds the text of \<^verbatim>\<open>CURRENT_TIMESTAMP\<close> at the insertion
  (\<^verbatim>\<open>YYYY-MM-DD HH:MM:SS\<close>).
\<close>

record contact_row =
  msg_id :: int
  msg_first_name :: string
  msg_last_name :: string
  msg_email :: string
  msg_phone :: "string option"
  msg_subject :: string
  msg_message :: string
  msg_newsletter :: int
  msg_created_at :: string

record faculty_row =
  fac_id :: int
  fac_name :: string
  fac_designation :: string
  fac_subject :: string
  fac_bio :: "string option"
  fac_email :: "string option"
  fac_is_hod :: int

record achievement_row =
  ach_id :: int
  ach_icon :: "string option"
  ach_title :: string
  ach_description :: string
  ach_category :: "string option"
  ach_is_active :: int
  ach_created_at :: string

record gallery_row =
  img_id :: int
  img_image_url :: string
  img_caption :: string
  img_event_date :: "string option"
  img_is_active :: int
  img_created_at :: string

text \<open>
  A table with an \<^verbatim>\<open>INTEGER PRIMARY KEY AUTOINCREMENT\<close> column: its rows in rowid order,
  and \<open>seq\<close>, the largest rowid the table has ever held (SQLite's \<^verbatim>\<open>sqlite_sequence\<close>).
  A new row gets a rowid one larger than both \<open>seq\<close> and every rowid in the table.
\<close>

record 'r table =
  rows :: "'r list"
  seq :: int

definition empty_table :: "'r table" where
  "empty_table = \<lparr>rows = [], seq = 0\<rparr>"

definition next_rowid :: "('r \<Rightarrow> int) \<Rightarrow> 'r table \<Rightarrow> int" where
  "next_rowid rowid t = fold max (map rowid (rows t)) (seq t) + 1"

definition append_row :: "'r table \<Rightarrow> int \<Rightarrow> 'r \<Rightarrow> 'r table" where
  "append_row t i r = \<lparr>rows = rows t @ [r], seq = i\<rparr>"

text \<open>The database file: a table is \<open>None\<close> until it has been created.\<close>

record db =
  contact_messages :: "contact_row table option"
  faculty :: "faculty_row table option"
  achievements :: "achievement_row table option"
  gallery :: "gallery_row table option"

text \<open>
  \<^verbatim>\<open>ORDER BY\<close>: a stable insertion sort along the scan order of the table, where
  \<open>le a b\<close> says that \<open>a\<close> may come before \<open>b\<close>. SQL leaves the order of rows with
  equal keys open; SQLite's sorter keeps them in scan order.
\<close>

fun place :: "('r \<Rightarrow> 'r \<Rightarrow> bool) \<Rightarrow> 'r \<Rightarrow> 'r list \<Rightarrow> 'r list" where
  "place le r [] = [r]"
| "place le r (x # xs) = (if le x r then x # place le r xs else r # x # xs)"

definition order_by :: "('r \<Rightarrow> 'r \<Rightarrow> bool) \<Rightarrow> 'r list \<Rightarrow> 'r list" where
  "order_by le rs = fold (place le) rs []"

subsection \<open>Statements\<close>

text \<open>
  \<open>item kvs k\<close> is \<^verbatim>\<open>data[k]\<close>. \<open>flag v\<close> is \<^verbatim>\<open>1 if v else 0\<close>. \<open>opt_json\<close> is the
  value of a nullable text column in a response.
\<close>

definition item :: "(string \<times> json) list \<Rightarrow> string \<Rightarrow> exc + json" where
  "item kvs k = (case map_of kvs k of None \<Rightarrow> Inl KeyError | Some v \<Rightarrow> Inr v)"

definition flag :: "json \<Rightarrow> int" where
  "flag v = (if truthy v then 1 else 0)"

definition opt_json :: "string option \<Rightarrow> json" where
  "opt_json v = (case v of None \<Rightarrow> JNull | Some s \<Rightarrow> JStr s)"

definition table_of :: "'t option \<Rightarrow> exc + 't" where
  "table_of t = (case t of None \<Rightarrow> Inl OperationalError | Some x \<Rightarrow> Inr x)"

text \<open>
  An \<^verbatim>\<open>AUTOINCREMENT\<close> table that has held the rowid 2^63 - 1 takes no new row: the
  \<^verbatim>\<open>INSERT\<close> fails with \<^verbatim>\<open>SQLITE_FULL\<close>, which sqlite3 raises as an OperationalError.
  \<open>bind_id\<close> binds the integer that Flask's \<^verbatim>\<open><int:...>\<close> converter made of the digits in
  the URL, which may be of any size.
\<close>

definition not_full :: "('r \<Rightarrow> int) \<Rightarrow> 'r table \<Rightarrow> exc + unit" where
  "not_full rowid t = (if next_rowid rowid t < 2 ^ 63 then Inr () else Inl OperationalError)"

definition bind_id :: "nat \<Rightarrow> exc + sqlval" where
  "bind_id i = bind (JNum (int i))"

text \<open>
  \<^verbatim>\<open>INSERT INTO\<close> one row whose column values have passed the constraints: the row gets
  the next rowid, which is also \<^verbatim>\<open>cursor.lastrowid\<close>.
\<close>

definition store_contact ::
  "string \<Rightarrow> string \<Rightarrow> string \<Rightarrow> string option \<Rightarrow> string \<Rightarrow> string \<Rightarrow> int \<Rightarrow> string \<Rightarrow>
   contact_row table \<Rightarrow> contact_row table \<times> int" where
  "store_contact first_name last_name email phone subject message newsletter now t =
     (let i = next_rowid msg_id t
      in (append_row t i
            \<lparr>msg_id = i, msg_first_name = first_name, msg_last_name = last_name,
             msg_email = email, msg_phone = phone, msg_subject = subject,
             msg_message = message, msg_newsletter = newsletter, msg_created_at = now\<rparr>, i))"

definition store_faculty ::
  "string \<Rightarrow> string \<Rightarrow> string \<Rightarrow> string option \<Rightarrow> string option \<Rightarrow> int \<Rightarrow>
   faculty_row table \<Rightarrow> faculty_row table \<times> int" where
  "store_faculty name designation subject bio email is_hod t =
     (let i = next_rowid fac_id t
      in (append_row t i
            \<lparr>fac_id = i, fac_name = name, fac_designation = designation,
             fac_subject = subject, fac_bio = bio, fac_email = email, fac_is_hod = is_hod\<rparr>, i))"

definition store_achievement ::
  "string option \<Rightarrow> string \<Rightarrow> string \<Rightarrow> string option \<Rightarrow> int \<Rightarrow> string \<Rightarrow>
   achievement_row table \<Rightarrow> achievement_row table \<times> int" where
  "store_achievement icon title description category is_active now t =
     (let i = next_rowid ach_id t
      in (append_row t i
            \<lparr>ach_id = i, ach_icon = icon, ach_title = title, ach_description = description,
             ach_category = category, ach_is_active = is_active, ach_created_at = now\<rparr>, i))"

definition store_gallery ::
  "string \<Rightarrow> string \<Rightarrow> string option \<Rightarrow> int \<Rightarrow> string \<Rightarrow>
   gallery_row table \<Rightarrow> gallery_row table \<times> int" where
  "store_gallery image_url caption event_date is_active now t =
     (let i = next_rowid img_id t
      in (append_row t i
            \<lparr>img_id = i, img_image_url = image_url, img_caption = caption,
             img_event_date = event_date, img_is_active = is_active, img_created_at = now\<rparr>, i))"

text \<open>
  \<^verbatim>\<open>cursor.execute\<close> of an \<^verbatim>\<open>INSERT\<close> with the handler's parameter tuple, then
  \<^verbatim>\<open>conn.commit()\<close>: the statement is prepared (the table must exist), the parameters are
  bound in order, the new rowid is chosen and the \<^verbatim>\<open>NOT NULL\<close> constraints are checked.
  \<open>now\<close> is the value of \<^verbatim>\<open>CURRENT_TIMESTAMP\<close>.
\<close>

definition insert_contact_messages ::
  "string \<Rightarrow> json \<Rightarrow> json \<Rightarrow> json \<Rightarrow> json \<Rightarrow> json \<Rightarrow> json \<Rightarrow> int \<Rightarrow> db \<Rightarrow> exc + db \<times> int" where
  "insert_contact_messages now first_name last_name email phone subject message newsletter d =
     then_do (table_of (contact_messages d)) (\<lambda>t.
     then_do (bind first_name) (\<lambda>p1.
     then_do (bind last_name) (\<lambda>p2.
     then_do (bind email) (\<lambda>p3.
     then_do (bind phone) (\<lambda>p4.
     then_do (bind subject) (\<lambda>p5.
     then_do (bind message) (\<lambda>p6.
     then_do (not_full msg_id t) (\<lambda>_.
     then_do (text_not_null p1) (\<lambda>c1.
     then_do (text_not_null p2) (\<lambda>c2.
     then_do (text_not_null p3) (\<lambda>c3.
     then_do (text_not_null p5) (\<lambda>c5.
     then_do (text_not_null p6) (\<lambda>c6.
       (case store_contact c1 c2 c3 (text_affinity p4) c5 c6 newsletter now t of
          (t', i) \<Rightarrow> Inr (d\<lparr>contact_messages := Some t'\<rparr>, i)))))))))))))))"

definition insert_faculty ::
  "json \<Rightarrow> json \<Rightarrow> json \<Rightarrow> json \<Rightarrow> json \<Rightarrow> int \<Rightarrow> db \<Rightarrow> exc + db \<times> int" where
  "insert_faculty name designation subject bio email is_hod d =
     then_do (table_of (faculty d)) (\<lambda>t.
     then_do (bind name) (\<lambda>p1.
     then_do (bind designation) (\<lambda>p2.
     then_do (bind subject) (\<lambda>p3.
     then_do (bind bio) (\<lambda>p4.
     then_do (bind email) (\<lambda>p5.
     then_do (not_full fac_id t) (\<lambda>_.
     then_do (text_not_null p1) (\<lambda>c1.
     then_do (text_not_null p2) (\<lambda>c2.
     then_do (text_not_null p3) (\<lambda>c3.
       (case store_faculty c1 c2 c3 (text_affinity p4) (text_affinity p5) is_hod t of
          (t', i) \<Rightarrow> Inr (d\<lparr>faculty := Some t'\<rparr>, i))))))))))))"

definition insert_achievements ::
  "string \<Rightarrow> json \<Rightarrow> json \<Rightarrow> json \<Rightarrow> json \<Rightarrow> int \<Rightarrow> db \<Rightarrow> exc + db \<times> int" where
  "insert_achievements now icon title description category is_active d =
     then_do (table_of (achievements d)) (\<lambda>t.
     then_do (bind icon) (\<lambda>p1.
     then_do (bind title) (\<lambda>p2.
     then_do (bind description) (\<lambda>p3.
     then_do (bind category) (\<lambda>p4.
     then_do (not_full ach_id t) (\<lambda>_.
     then_do (text_not_null p2) (\<lambda>c2.
     then_do (text_not_null p3) (\<lambda>c3.
       (case store_achievement (text_affinity p1) c2 c3 (text_affinity p4) is_active now t of
          (t', i) \<Rightarrow> Inr (d\<lparr>achievements := Some t'\<rparr>, i))))))))))"

definition insert_gallery ::
  "string \<Rightarrow> json \<Rightarrow> json \<Rightarrow> json \<Rightarrow> int \<Rightarrow> db \<Rightarrow> exc + db \<times> int" where
  "insert_gallery now image_url caption event_date is_active d =
     then_do (table_of (gallery d)) (\<lambda>t.
     then_do (bind image_url) (\<lambda>p1.
     then_do (bind caption) (\<lambda>p2.
     then_do (bind event_date) (\<lambda>p3.
     then_do (not_full img_id t) (\<lambda>_.
     then_do (text_not_null p1) (\<lambda>c1.
     then_do (text_not_null p2) (\<lambda>c2.
       (case store_gallery c1 c2 (text_affinity p3) is_active now t of
          (t', i) \<Rightarrow> Inr (d\<lparr>gallery := Some t'\<rparr>, i)))))))))"

text \<open>
  \<^verbatim>\<open>UPDATE ... WHERE id = ?\<close>: the id is the last parameter bound. When no row has the id
  the statement changes nothing and succeeds; otherwise the new column values must pass the \<^verbatim>\<open>NOT NULL\<close> constraints, and
  a failed constraint leaves the table as it was. The rowid and \<^verbatim>\<open>created_at\<close> are kept.
\<close>

definition update_faculty_row ::
  "json \<Rightarrow> json \<Rightarrow> json \<Rightarrow> json \<Rightarrow> json \<Rightarrow> int \<Rightarrow> nat \<Rightarrow> db \<Rightarrow> exc + db" where
  "update_faculty_row name designation subject bio email is_hod faculty_id d =
     then_do (table_of (faculty d)) (\<lambda>t.
     then_do (bind name) (\<lambda>p1.
     then_do (bind designation) (\<lambda>p2.
     then_do (bind subject) (\<lambda>p3.
     then_do (bind bio) (\<lambda>p4.
     then_do (bind email) (\<lambda>p5.
     then_do (bind_id faculty_id) (\<lambda>p7.
       if \<forall>r \<in> set (rows t). fac_id r \<noteq> int faculty_id then Inr d
       else
     then_do (text_not_null p1) (\<lambda>c1.
     then_do (text_not_null p2) (\<lambda>c2.
     then_do (text_not_null p3) (\<lambda>c3.
       Inr (d\<lparr>faculty := Some (t\<lparr>rows :=
              map (\<lambda>r. if fac_id r = int faculty_id
                        then r\<lparr>fac_name := c1, fac_designation := c2, fac_subject := c3,
                               fac_bio := text_affinity p4, fac_email := text_affinity p5,
                               fac_is_hod := is_hod\<rparr>
                        else r) (rows t)\<rparr>)\<rparr>)))))))))))"

definition update_achievements_row ::
  "json \<Rightarrow> json \<Rightarrow> json \<Rightarrow> json \<Rightarrow> int \<Rightarrow> nat \<Rightarrow> db \<Rightarrow> exc + db" where
  "update_achievements_row icon title description category is_active ach d =
     then_do (table_of (achievements d)) (\<lambda>t.
     then_do (bind icon) (\<lambda>p1.
     then_do (bind title) (\<lambda>p2.
     then_do (bind description) (\<lambda>p3.
     then_do (bind category) (\<lambda>p4.
     then_do (bind_id ach) (\<lambda>p6.
       if \<forall>r \<in> set (rows t). ach_id r \<noteq> int ach then Inr d
       else
     then_do (text_not_null p2) (\<lambda>c2.
     then_do (text_not_null p3) (\<lambda>c3.
       Inr (d\<lparr>achievements := Some (t\<lparr>rows :=
              map (\<lambda>r. if ach_id r = int ach
                        then r\<lparr>ach_icon := text_affinity p1, ach_title := c2,
                               ach_description := c3, ach_category := text_affinity p4,
                               ach_is_active := is_active\<rparr>
                        else r) (rows t)\<rparr>)\<rparr>)))))))))"

definition update_gallery_row ::
  "json \<Rightarrow> json \<Rightarrow> json \<Rightarrow> int \<Rightarrow> nat \<Rightarrow> db \<Rightarrow> exc + db" where
  "update_gallery_row image_url caption event_date is_active img d =
     then_do (table_of (gallery d)) (\<lambda>t.
     then_do (bind image_url) (\<lambda>p1.
     then_do (bind caption) (\<lambda>p2.
     then_do (bind event_date) (\<lambda>p3.
     then_do (bind_id img) (\<lambda>p5.
       if \<forall>r \<in> set (rows t). img_id r \<noteq> int img then Inr d
       else
     then_do (text_not_null p1) (\<lambda>c1.
     then_do (text_not_null p2) (\<lambda>c2.
       Inr (d\<lparr>gallery := Some (t\<lparr>rows :=
              map (\<lambda>r. if img_id r = int img
                        then r\<lparr>img_image_url := c1, img_caption := c2,
                               img_event_date := text_affinity p3, img_is_active := is_active\<rparr>
                        else r) (rows t)\<rparr>)\<rparr>))))))))"

text \<open>
  \<^verbatim>\<open>DELETE FROM ... WHERE id = ?\<close>, once the id has been bound: the rows with the id go,
  the others stay.
\<close>

definition delete_row :: "('r \<Rightarrow> int) \<Rightarrow> int \<Rightarrow> 'r table \<Rightarrow> 'r table" where
  "delete_row rowid i t = t\<lparr>rows := filter (\<lambda>r. rowid r \<noteq> i) (rows t)\<rparr>"

subsection \<open>Request handlers\<close>

text \<open>
  A handler that reads a body takes the result of \<^verbatim>\<open>request.get_json()\<close>: \<open>None\<close> when
  the request has no parsable JSON body. A handler that writes takes the store and returns
  the new store with the response; when an exception is raised nothing is committed.
\<close>

definition success_message :: "string \<Rightarrow> response" where
  "success_message m = (Envelope (JObj [(''success'', JBool True), (''message'', JStr m)]), 200)"

definition created :: "string \<Rightarrow> int \<Rightarrow> response" where
  "created m i =
     (Envelope (JObj [(''success'', JBool True), (''message'', JStr m), (''id'', JNum i)]), 201)"

definition error_response :: "string \<Rightarrow> nat \<Rightarrow> response" where
  "error_response m code = (Envelope (JObj [(''success'', JBool False), (''error'', JStr m)]), code)"

definition data_list :: "json list \<Rightarrow> response" where
  "data_list result =
     (Envelope (JObj [(''success'', JBool True), (''data'', JArr result),
                      (''count'', JNum (int (length result)))]), 200)"

definition submit_contact :: "string \<Rightarrow> json option \<Rightarrow> db \<Rightarrow> db \<times> response" where
  "submit_contact now req d =
     (case req of
        None \<Rightarrow> (d, failed BadRequest)
      | Some (JObj data) \<Rightarrow>
          (case find (\<lambda>field. \<not> truthy (get data field))
                  [''firstName'', ''lastName'', ''email'', ''subject'', ''message''] of
             Some field \<Rightarrow> (d, error_response (field @ '' is required'') 400)
           | None \<Rightarrow>
               (case then_do (item data ''firstName'') (\<lambda>first_name.
                     then_do (item data ''lastName'') (\<lambda>last_name.
                     then_do (item data ''email'') (\<lambda>email.
                     then_do (item data ''subject'') (\<lambda>subject.
                     then_do (item data ''message'') (\<lambda>message.
                       insert_contact_messages now first_name last_name email
                         (get_default data ''phone'' (JStr [])) subject message
                         (flag (get data ''newsletter'')) d))))) of
                  Inl e \<Rightarrow> (d, failed e)
                | Inr (d', message_id) \<Rightarrow>
                    (d', created ''Your message has been received! We will get back to you soon.''
                           message_id)))
      | Some _ \<Rightarrow> (d, failed AttributeError))"

definition contact_json :: "contact_row \<Rightarrow> json" where
  "contact_json msg =
     JObj [(''id'', JNum (msg_id msg)),
           (''firstName'', JStr (msg_first_name msg)),
           (''lastName'', JStr (msg_last_name msg)),
           (''email'', JStr (msg_email msg)),
           (''phone'', opt_json (msg_phone msg)),
           (''subject'', JStr (msg_subject msg)),
           (''message'', JStr (msg_message msg)),
           (''newsletter'', JBool (msg_newsletter msg \<noteq> 0)),
           (''createdAt'', JStr (msg_created_at msg))]"

text \<open>\<^verbatim>\<open>ORDER BY created_at DESC\<close>: the texts are compared byte by byte.\<close>

definition newest_first :: "('r \<Rightarrow> string) \<Rightarrow> 'r list \<Rightarrow> 'r list" where
  "newest_first created_at rs = order_by (\<lambda>a b. created_at b \<le> created_at a) rs"

definition get_contacts :: "db \<Rightarrow> response" where
  "get_contacts d =
     (case contact_messages d of
        None \<Rightarrow> failed OperationalError
      | Some t \<Rightarrow> data_list (map contact_json (newest_first msg_created_at (rows t))))"

definition faculty_json :: "faculty_row \<Rightarrow> json" where
  "faculty_json member =
     JObj [(''id'', JNum (fac_id member)),
           (''name'', JStr (fac_name member)),
           (''designation'', JStr (fac_designation member)),
           (''subject'', JStr (fac_subject member)),
           (''bio'', opt_json (fac_bio member)),
           (''email'', opt_json (fac_email member)),
           (''isHod'', JBool (fac_is_hod member \<noteq> 0))]"

text \<open>\<^verbatim>\<open>ORDER BY is_hod DESC, name ASC\<close>\<close>

definition hod_then_name :: "faculty_row \<Rightarrow> faculty_row \<Rightarrow> bool" where
  "hod_then_name a b \<longleftrightarrow>
     fac_is_hod b < fac_is_hod a \<or> (fac_is_hod a = fac_is_hod b \<and> fac_name a \<le> fac_name b)"

definition get_faculty :: "db \<Rightarrow> response" where
  "get_faculty d =
     (case faculty d of
        None \<Rightarrow> failed OperationalError
      | Some t \<Rightarrow> data_list (map faculty_json (order_by hod_then_name (rows t))))"

text \<open>
  \<^verbatim>\<open>SELECT * FROM faculty WHERE id = ?\<close> with the id of the URL, then \<^verbatim>\<open>fetchone()\<close>: the
  statement is prepared, the id is bound, and the first row with the id is fetched.
\<close>

definition get_faculty_by_id :: "nat \<Rightarrow> db \<Rightarrow> response" where
  "get_faculty_by_id faculty_id d =
     (case then_do (table_of (faculty d)) (\<lambda>t.
           then_do (bind_id faculty_id) (\<lambda>p.
             Inr (find (\<lambda>r. fac_id r = int faculty_id) (rows t)))) of
        Inl e \<Rightarrow> failed e
      | Inr None \<Rightarrow> error_response ''Faculty member not found'' 404
      | Inr (Some member) \<Rightarrow>
          (Envelope (JObj [(''success'', JBool True), (''data'', faculty_json member)]), 200))"

definition add_faculty :: "json option \<Rightarrow> db \<Rightarrow> db \<times> response" where
  "add_faculty req d =
     (case req of
        None \<Rightarrow> (d, failed BadRequest)
      | Some (JObj data) \<Rightarrow>
          (case find (\<lambda>field. \<not> truthy (get data field))
                  [''name'', ''designation'', ''subject''] of
             Some field \<Rightarrow> (d, error_response (field @ '' is required'') 400)
           | None \<Rightarrow>
               (case then_do (item data ''name'') (\<lambda>name.
                     then_do (item data ''designation'') (\<lambda>designation.
                     then_do (item data ''subject'') (\<lambda>subject.
                       insert_faculty name designation subject
                         (get_default data ''bio'' (JStr []))
                         (get_default data ''email'' (JStr []))
                         (flag (get data ''isHod'')) d))) of
                  Inl e \<Rightarrow> (d, failed e)
                | Inr (d', faculty_id) \<Rightarrow>
                    (d', created ''Faculty member added successfully!'' faculty_id)))
      | Some _ \<Rightarrow> (d, failed AttributeError))"

definition update_faculty :: "nat \<Rightarrow> json option \<Rightarrow> db \<Rightarrow> db \<times> response" where
  "update_faculty faculty_id req d =
     (case req of
        None \<Rightarrow> (d, failed BadRequest)
      | Some (JObj data) \<Rightarrow>
          (case update_faculty_row (get data ''name'') (get data ''designation'')
                  (get data ''subject'') (get_default data ''bio'' (JStr []))
                  (get_default data ''email'' (JStr [])) (flag (get data ''isHod''))
                  faculty_id d of
             Inl e \<Rightarrow> (d, failed e)
           | Inr d' \<Rightarrow> (d', success_message ''Faculty member updated successfully!''))
      | Some _ \<Rightarrow> (d, failed AttributeError))"

definition delete_faculty :: "nat \<Rightarrow> db \<Rightarrow> db \<times> response" where
  "delete_faculty faculty_id d =
     (case then_do (table_of (faculty d)) (\<lambda>t.
           then_do (bind_id faculty_id) (\<lambda>p.
             Inr (delete_row fac_id (int faculty_id) t))) of
        Inl e \<Rightarrow> (d, failed e)
      | Inr t' \<Rightarrow>
          (d\<lparr>faculty := Some t'\<rparr>, success_message ''Faculty member deleted successfully!''))"

text \<open>
  \<^verbatim>\<open>request.args.get('all', 'false').lower() == 'true'\<close>, where \<open>arg\<close> is the value of the
  query parameter \<^verbatim>\<open>all\<close>, if the request has one.
\<close>

definition show_all :: "string option \<Rightarrow> bool" where
  "show_all arg \<longleftrightarrow> lower (case arg of None \<Rightarrow> ''false'' | Some v \<Rightarrow> v) = ''true''"

text \<open>The default icon is U+1F3C6 (trophy), four bytes in UTF-8.\<close>

definition trophy :: string where
  "trophy = map char_of [0xF0, 0x9F, 0x8F, 0x86 :: nat]"

definition achievement_json :: "achievement_row \<Rightarrow> json" where
  "achievement_json ach =
     JObj [(''id'', JNum (ach_id ach)),
           (''icon'', opt_json (ach_icon ach)),
           (''title'', JStr (ach_title ach)),
           (''description'', JStr (ach_description ach)),
           (''category'', opt_json (ach_category ach)),
           (''isActive'', JBool (ach_is_active ach \<noteq> 0)),
           (''createdAt'', JStr (ach_created_at ach))]"

definition select_achievements :: "bool \<Rightarrow> achievement_row table \<Rightarrow> achievement_row list" where
  "select_achievements everything t =
     (if everything then newest_first ach_created_at (rows t)
      else newest_first ach_created_at (filter (\<lambda>r. ach_is_active r = 1) (rows t)))"

definition get_achievements :: "string option \<Rightarrow> db \<Rightarrow> response" where
  "get_achievements arg d =
     (case achievements d of
        None \<Rightarrow> failed OperationalError
      | Some t \<Rightarrow> data_list (map achievement_json (select_achievements (show_all arg) t)))"

definition add_achievement :: "string \<Rightarrow> json option \<Rightarrow> db \<Rightarrow> db \<times> response" where
  "add_achievement now req d =
     (case req of
        None \<Rightarrow> (d, failed BadRequest)
      | Some (JObj data) \<Rightarrow>
          if \<not> truthy (get data ''title'') \<or> \<not> truthy (get data ''description'')
          then (d, error_response ''Title and description are required'' 400)
          else
            (case then_do (item data ''title'') (\<lambda>title.
                  then_do (item data ''description'') (\<lambda>description.
                    insert_achievements now (get_default data ''icon'' (JStr trophy))
                      title description (get_default data ''category'' (JStr ''general''))
                      (flag (get_default data ''isActive'' (JBool True))) d)) of
               Inl e \<Rightarrow> (d, failed e)
             | Inr (d', ach) \<Rightarrow> (d', created ''Achievement added successfully!'' ach))
      | Some _ \<Rightarrow> (d, failed AttributeError))"

definition update_achievement :: "nat \<Rightarrow> json option \<Rightarrow> db \<Rightarrow> db \<times> response" where
  "update_achievement ach req d =
     (case req of
        None \<Rightarrow> (d, failed BadRequest)
      | Some (JObj data) \<Rightarrow>
          (case update_achievements_row (get_default data ''icon'' (JStr trophy))
                  (get data ''title'') (get data ''description'')
                  (get_default data ''category'' (JStr ''general''))
                  (flag (get_default data ''isActive'' (JBool True))) ach d of
             Inl e \<Rightarrow> (d, failed e)
           | Inr d' \<Rightarrow> (d', success_message ''Achievement updated successfully!''))
      | Some _ \<Rightarrow> (d, failed AttributeError))"

definition delete_achievement :: "nat \<Rightarrow> db \<Rightarrow> db \<times> response" where
  "delete_achievement ach d =
     (case then_do (table_of (achievements d)) (\<lambda>t.
           then_do (bind_id ach) (\<lambda>p.
             Inr (delete_row ach_id (int ach) t))) of
        Inl e \<Rightarrow> (d, failed e)
      | Inr t' \<Rightarrow>
          (d\<lparr>achievements := Some t'\<rparr>, success_message ''Achievement deleted successfully!''))"

definition gallery_json :: "gallery_row \<Rightarrow> json" where
  "gallery_json img =
     JObj [(''id'', JNum (img_id img)),
           (''imageUrl'', JStr (img_image_url img)),
           (''caption'', JStr (img_caption img)),
           (''eventDate'', opt_json (img_event_date img)),
           (''isActive'', JBool (img_is_active img \<noteq> 0)),
           (''createdAt'', JStr (img_created_at img))]"

definition select_gallery :: "bool \<Rightarrow> gallery_row table \<Rightarrow> gallery_row list" where
  "select_gallery everything t =
     (if everything then newest_first img_created_at (rows t)
      else newest_first img_created_at (filter (\<lambda>r. img_is_active r = 1) (rows t)))"

definition get_gallery :: "string option \<Rightarrow> db \<Rightarrow> response" where
  "get_gallery arg d =
     (case gallery d of
        None \<Rightarrow> failed OperationalError
      | Some t \<Rightarrow> data_list (map gallery_json (select_gallery (show_all arg) t)))"

definition add_gallery :: "string \<Rightarrow> json option \<Rightarrow> db \<Rightarrow> db \<times> response" where
  "add_gallery now req d =
     (case req of
        None \<Rightarrow> (d, failed BadRequest)
      | Some (JObj data) \<Rightarrow>
          if \<not> truthy (get data ''imageUrl'') \<or> \<not> truthy (get data ''caption'')
          then (d, error_response ''Image URL and caption are required'' 400)
          else
            (case then_do (item data ''imageUrl'') (\<lambda>image_url.
                  then_do (item data ''caption'') (\<lambda>caption.
                    insert_gallery now image_url caption
                      (get_default data ''eventDate'' (JStr []))
                      (flag (get_default data ''isActive'' (JBool True))) d)) of
               Inl e \<Rightarrow> (d, failed e)
             | Inr (d', img) \<Rightarrow> (d', created ''Gallery image added successfully!'' img))
      | Some _ \<Rightarrow> (d, failed AttributeError))"

definition update_gallery :: "nat \<Rightarrow> json option \<Rightarrow> db \<Rightarrow> db \<times> response" where
  "update_gallery img req d =
     (case req of
        None \<Rightarrow> (d, failed BadRequest)
      | Some (JObj data) \<Rightarrow>
          (case update_gallery_row (get data ''imageUrl'') (get data ''caption'')
                  (get_default data ''eventDate'' (JStr []))
                  (flag (get_default data ''isActive'' (JBool True))) img d of
             Inl e \<Rightarrow> (d, failed e)
           | Inr d' \<Rightarrow> (d', success_message ''Gallery image updated successfully!''))
      | Some _ \<Rightarrow> (d, failed AttributeError))"

definition delete_gallery :: "nat \<Rightarrow> db \<Rightarrow> db \<times> response" where
  "delete_gallery img d =
     (case then_do (table_of (gallery d)) (\<lambda>t.
           then_do (bind_id img) (\<lambda>p.
             Inr (delete_row img_id (int img) t))) of
        Inl e \<Rightarrow> (d, failed e)
      | Inr t' \<Rightarrow>
          (d\<lparr>gallery := Some t'\<rparr>, success_message ''Gallery image deleted successfully!''))"

subsection \<open>Schema initializer\<close>

definition sample_gallery :: "(string \<times> string \<times> string) list" where
  "sample_gallery =
    [(''https://images.unsplash.com/photo-1540575467063-178a50c2df87?w=600'',
      ''Annual Tech Fest 2024 - Students showcasing AI projects'', ''2024-03-15''),
     (''https://images.unsplash.com/photo-1523580494863-6f3031224c94?w=600'',
      ''Industry Expert Guest Lecture on Machine Learning'', ''2024-02-20''),
     (''https://images.unsplash.com/photo-1559223607-a43c990c692c?w=600'',
      ''Hackathon Winners - Smart India Hackathon 2024'', ''2024-01-10''),
     (''https://images.unsplash.com/photo-1517245386807-bb43f82c33c4?w=600'',
      ''Workshop on Deep Learning and Neural Networks'', ''2024-02-05''),
     (''https://images.unsplash.com/photo-1531482615713-2afd69097998?w=600'',
      ''Placement Drive - Campus Recruitment 2024'', ''2024-01-25''),
     (''https://images.unsplash.com/photo-1552664730-d307ca884978?w=600'',
      ''Faculty Development Program on AI Ethics'', ''2024-02-28'')]"

text \<open>The icons are U+1F3AF, U+1F4BC, U+1F3C6, U+1F4DA, U+1F31F and U+1F393 in UTF-8.\<close>

definition sample_achievements :: "(string \<times> string \<times> string \<times> string \<times> int) list" where
  "sample_achievements =
    [(map char_of [0xF0, 0x9F, 0x8E, 0xAF :: nat], ''100% Placement'',
      ''All eligible students placed in top MNCs for 2024 batch'', ''placement'', 1),
     (map char_of [0xF0, 0x9F, 0x92, 0xBC :: nat], ''Top Recruiters'',
      ''Google, Microsoft, Amazon, TCS, Infosys & more visiting campus'', ''placement'', 1),
     (map char_of [0xF0, 0x9F, 0x8F, 0x86 :: nat], ''Hackathon Champions'',
      ''Students won Smart India Hackathon 2024'', ''competition'', 1),
     (map char_of [0xF0, 0x9F, 0x93, 0x9A :: nat], ''Research Excellence'',
      ''50+ papers published in international journals'', ''research'', 1),
     (map char_of [0xF0, 0x9F, 0x8C, 0x9F :: nat], ''Industry Projects'',
      ''Live projects with IBM, Intel & Nvidia partnerships'', ''project'', 1),
     (map char_of [0xF0, 0x9F, 0x8E, 0x93 :: nat], ''Highest Package'',
      ''45 LPA offered by leading tech company'', ''placement'', 1)]"

definition sample_faculty ::
  "(string \<times> string \<times> string \<times> string \<times> string \<times> int) list" where
  "sample_faculty =
    [(''Dr. Rajesh Kumar'', ''Head of Department & Professor'',
      ''Deep Learning & Neural Networks'',
      ''Dr. Rajesh Kumar has over 20 years of experience in AI research and education.'',
      ''rajesh.kumar@college.edu'', 1),
     (''Dr. Priya Sharma'', ''Associate Professor'',
      ''Machine Learning & Pattern Recognition'',
      ''Ph.D. from IISc Bangalore with expertise in ML algorithms.'',
      ''priya.sharma@college.edu'', 0),
     (''Dr. Amit Patel'', ''Associate Professor'',
      ''Natural Language Processing'',
      ''Expert in NLP with focus on sentiment analysis and language models.'',
      ''amit.patel@college.edu'', 0),
     (''Dr. Sneha Reddy'', ''Assistant Professor'',
      ''Computer Vision & Image Processing'',
      ''Specializes in image recognition and object detection algorithms.'',
      ''sneha.reddy@college.edu'', 0),
     (''Dr. Vikram Singh'', ''Assistant Professor'',
      ''Big Data Analytics'',
      ''Expert in distributed computing and large-scale data processing.'',
      ''vikram.singh@college.edu'', 0),
     (''Dr. Anita Verma'', ''Assistant Professor'',
      ''Data Mining & Warehousing'',
      ''Focuses on knowledge discovery from large datasets.'',
      ''anita.verma@college.edu'', 0),
     (''Prof. Dhanapathy'', ''Professor'',
      ''Artificial Neural Networks'',
      ''30+ years of teaching experience with expertise in neural networks.'',
      ''dhanapathy@college.edu'', 0),
     (''Dr. Kavita Nair'', ''Associate Professor'',
      ''Reinforcement Learning'',
      ''Research focuses on RL applications in robotics.'',
      ''kavita.nair@college.edu'', 0),
     (''Dr. Rahul Joshi'', ''Assistant Professor'',
      ''Statistical Learning & Probability'',
      ''Expert in probabilistic models and statistical inference.'',
      ''rahul.joshi@college.edu'', 0)]"

text \<open>\<^verbatim>\<open>CREATE TABLE IF NOT EXISTS\<close>\<close>

definition create_if_not_exists :: "'r table option \<Rightarrow> 'r table option" where
  "create_if_not_exists t = (case t of None \<Rightarrow> Some empty_table | Some x \<Rightarrow> Some x)"

text \<open>
  \<^verbatim>\<open>cursor.executemany\<close> runs the \<^verbatim>\<open>INSERT\<close> once for each sample row, in order. The
  gallery statement names three columns, so \<^verbatim>\<open>is_active\<close> takes its default 1; both the
  gallery and the achievements statement leave \<^verbatim>\<open>created_at\<close> to its default, and
  \<open>clock k\<close> is the value of \<^verbatim>\<open>CURRENT_TIMESTAMP\<close> when sample row \<open>k\<close> is inserted.
\<close>

definition seed_gallery :: "(nat \<Rightarrow> string) \<Rightarrow> gallery_row table \<Rightarrow> gallery_row table" where
  "seed_gallery clock t =
     fold (\<lambda>(k, image_url, caption, event_date) t.
             fst (store_gallery image_url caption (Some event_date) 1 (clock k) t))
          (enumerate 0 sample_gallery) t"

definition seed_achievements ::
  "(nat \<Rightarrow> string) \<Rightarrow> achievement_row table \<Rightarrow> achievement_row table" where
  "seed_achievements clock t =
     fold (\<lambda>(k, icon, title, description, category, is_active) t.
             fst (store_achievement (Some icon) title description (Some category) is_active
                    (clock k) t))
          (enumerate 0 sample_achievements) t"

definition seed_faculty :: "faculty_row table \<Rightarrow> faculty_row table" where
  "seed_faculty t =
     fold (\<lambda>(name, designation, subject, bio, email, is_hod) t.
             fst (store_faculty name designation subject (Some bio) (Some email) is_hod t))
          sample_faculty t"

definition seed_if_empty :: "('r table \<Rightarrow> 'r table) \<Rightarrow> 'r table option \<Rightarrow> 'r table option" where
  "seed_if_empty seed t = map_option (\<lambda>x. if length (rows x) = 0 then seed x else x) t"

definition init_db :: "(nat \<Rightarrow> string) \<Rightarrow> (nat \<Rightarrow> string) \<Rightarrow> db \<Rightarrow> db" where
  "init_db gallery_clock achievements_clock d =
     (let d1 = d\<lparr>contact_messages := create_if_not_exists (contact_messages d)\<rparr>;
          d2 = d1\<lparr>faculty := create_if_not_exists (faculty d1)\<rparr>;
          d3 = d2\<lparr>achievements := create_if_not_exists (achievements d2)\<rparr>;
          d4 = d3\<lparr>gallery := create_if_not_exists (gallery d3)\<rparr>;
          d5 = d4\<lparr>gallery := seed_if_empty (seed_gallery gallery_clock) (gallery d4)\<rparr>;
          d6 = d5\<lparr>achievements :=
                    seed_if_empty (seed_achievements achievements_clock) (achievements d5)\<rparr>
      in d6\<lparr>faculty := seed_if_empty seed_faculty (faculty d6)\<rparr>)"

definition no_tables :: db where
  "no_tables = \<lparr>contact_messages = None, faculty = None, achievements = None, gallery = None\<rparr>"

subsection \<open>Routes\<close>

text \<open>
  One constructor for each \<^verbatim>\<open>@app.route\<close> under \<^verbatim>\<open>/api\<close>, with the path parameter (a
  natural number: the \<^verbatim>\<open><int:...>\<close> converter matches digits only), the parsed body or
  the \<^verbatim>\<open>all\<close> query parameter it reads. \<open>now\<close> is the clock of the store during the
  request. The two remaining routes, \<^verbatim>\<open>serve_index\<close> and \<^verbatim>\<open>serve_static\<close>, only
  send a file of the working directory and never open a database connection; the file
  system is not modelled.
\<close>

datatype request =
    Post_login "json option"
  | Post_contact "json option"
  | Get_contact
  | Get_faculty
  | Get_faculty_id nat
  | Post_faculty "json option"
  | Put_faculty nat "json option"
  | Delete_faculty nat
  | Get_achievements "string option"
  | Post_achievements "json option"
  | Put_achievements nat "json option"
  | Delete_achievements nat
  | Get_gallery "string option"
  | Post_gallery "json option"
  | Put_gallery nat "json option"
  | Delete_gallery nat

fun handle :: "string \<Rightarrow> request \<Rightarrow> db \<Rightarrow> db \<times> response" where
  "handle now (Post_login req) d = (d, admin_login req)"
| "handle now (Post_contact req) d = submit_contact now req d"
| "handle now Get_contact d = (d, get_contacts d)"
| "handle now Get_faculty d = (d, get_faculty d)"
| "handle now (Get_faculty_id i) d = (d, get_faculty_by_id i d)"
| "handle now (Post_faculty req) d = add_faculty req d"
| "handle now (Put_faculty i req) d = update_faculty i req d"
| "handle now (Delete_faculty i) d = delete_faculty i d"
| "handle now (Get_achievements arg) d = (d, get_achievements arg d)"
| "handle now (Post_achievements req) d = add_achievement now req d"
| "handle now (Put_achievements i req) d = update_achievement i req d"
| "handle now (Delete_achievements i) d = delete_achievement i d"
| "handle now (Get_gallery arg) d = (d, get_gallery arg d)"
| "handle now (Post_gallery req) d = add_gallery now req d"
| "handle now (Put_gallery i req) d = update_gallery i req d"
| "handle now (Delete_gallery i) d = delete_gallery i d"

subsection \<open>Stores that the program can reach\<close>

text \<open>
  The database file starts without tables; from then on it is only changed by \<^verbatim>\<open>init_db\<close>,
  at each start of the process, and by the handlers. \<open>db_ok\<close> is what every such store
  satisfies: in each table the rowids are distinct and the flag column holds 0 or 1.
\<close>

inductive reachable :: "db \<Rightarrow> bool" where
  fresh: "reachable no_tables"
| start: "reachable d \<Longrightarrow> reachable (init_db gallery_clock achievements_clock d)"
| request: "reachable d \<Longrightarrow> reachable (fst (handle now req d))"

definition table_ok :: "('r \<Rightarrow> int) \<Rightarrow> ('r \<Rightarrow> int) \<Rightarrow> 'r table option \<Rightarrow> bool" where
  "table_ok rowid flg t \<longleftrightarrow>
     (case t of
        None \<Rightarrow> True
      | Some x \<Rightarrow> distinct (map rowid (rows x)) \<and> (\<forall>r \<in> set (rows x). flg r = 0 \<or> flg r = 1))"

definition db_ok :: "db \<Rightarrow> bool" where
  "db_ok d \<longleftrightarrow>
     table_ok msg_id msg_newsletter (contact_messages d) \<and>
     table_ok fac_id fac_is_hod (faculty d) \<and>
     table_ok ach_id ach_is_active (achievements d) \<and>
     table_ok img_id img_is_active (gallery d)"

subsection \<open>What a text column keeps of a parameter\<close>



subsection \<open>A sample store\<close>

text \<open>
  A store as the handlers leave it: every table exists, the flags are 0 or 1, the rowids
  of a table are distinct and at most its \<open>seq\<close>. The second achievement and the second
  gallery image are inactive.
\<close>

definition example_db :: db where
  "example_db =
     \<lparr>contact_messages = Some
        \<lparr>rows = [\<lparr>msg_id = 1, msg_first_name = ''Jane'', msg_last_name = ''Doe'',
                   msg_email = ''jane@x.com'', msg_phone = Some [], msg_subject = ''admission'',
                   msg_message = ''Hi'', msg_newsletter = 0,
                   msg_created_at = ''2024-04-01 08:00:00''\<rparr>],
         seq = 1\<rparr>,
      faculty = Some
        \<lparr>rows = [\<lparr>fac_id = 1, fac_name = ''Dr. Priya Sharma'',
                   fac_designation = ''Associate Professor'', fac_subject = ''Machine Learning'',
                   fac_bio = Some ''Ph.D. from IISc Bangalore'',
                   fac_email = Some ''priya.sharma@college.edu'', fac_is_hod = 0\<rparr>,
                 \<lparr>fac_id = 2, fac_name = ''Dr. Rajesh Kumar'',
                   fac_designation = ''Head of Department'', fac_subject = ''Deep Learning'',
                   fac_bio = None, fac_email = None, fac_is_hod = 1\<rparr>],
         seq = 2\<rparr>,
      achievements = Some
        \<lparr>rows = [\<lparr>ach_id = 1, ach_icon = Some trophy, ach_title = ''Hackathon Champions'',
                   ach_description = ''Students won Smart India Hackathon 2024'',
                   ach_category = Some ''competition'', ach_is_active = 1,
                   ach_created_at = ''2024-04-01 09:00:00''\<rparr>,
                 \<lparr>ach_id = 2, ach_icon = Some trophy, ach_title = ''Old News'',
                   ach_description = ''No longer shown'',
                   ach_category = Some ''general'', ach_is_active = 0,
                   ach_created_at = ''2024-04-02 09:00:00''\<rparr>],
         seq = 2\<rparr>,
      gallery = Some
        \<lparr>rows = [\<lparr>img_id = 1, img_image_url = ''https://example.org/a.jpg'',
                   img_caption = ''Tech Fest'', img_event_date = Some ''2024-03-15'',
                   img_is_active = 1, img_created_at = ''2024-04-01 10:00:00''\<rparr>,
                 \<lparr>img_id = 2, img_image_url = ''https://example.org/b.jpg'',
                   img_caption = ''Workshop'', img_event_date = Some [],
                   img_is_active = 0, img_created_at = ''2024-04-02 10:00:00''\<rparr>],
         seq = 2\<rparr>\<rparr>"

section \<open>Properties\<close>

subsection \<open>Statements that succeed\<close>

lemma then_do_Inr: "then_do r f = Inr y \<Longrightarrow> \<exists>x. r = Inr x \<and> f x = Inr y"
  by (cases r) (simp_all add: then_do_def)

lemma then_do_simps:
  "then_do (Inr x) f = f x" "then_do (Inl e) f = Inl e"
  by (simp_all add: then_do_def)

lemma table_of_Inr: "table_of t = Inr x \<Longrightarrow> t = Some x"
  by (cases t) (simp_all add: table_of_def)

lemma table_of_Some: "table_of (Some t) = Inr t"
  by (simp add: table_of_def)

lemma bind_id_small: "i < 2 ^ 63 \<Longrightarrow> bind_id i = Inr (SInt (int i))"
  by (simp add: bind_id_def)

lemma bind_id_large: "2 ^ 63 \<le> i \<Longrightarrow> bind_id i = Inl OverflowError"
  by (simp add: bind_id_def)

lemma not_full_Inr: "not_full rowid t = Inr u \<Longrightarrow> next_rowid rowid t < 2 ^ 63"
  by (simp add: not_full_def split: if_splits)


subsection \<open>Sorting\<close>

lemma mset_place: "mset (place le r xs) = add_mset r (mset xs)"
  by (induction xs) auto

lemma set_place: "set (place le r xs) = insert r (set xs)"
  by (metis mset_place set_mset_add_mset_insert set_mset_mset)

lemma mset_fold_place: "mset (fold (place le) rs acc) = mset rs + mset acc"
  by (induction rs arbitrary: acc) (auto simp: mset_place)

lemma mset_order_by: "mset (order_by le rs) = mset rs"
  by (simp add: order_by_def mset_fold_place)

lemma set_order_by: "set (order_by le rs) = set rs"
  by (metis mset_order_by set_mset_mset)

lemma length_order_by: "length (order_by le rs) = length rs"
  by (metis mset_order_by size_mset)

lemma sorted_place:
  assumes total: "\<And>a b. \<not> le a b \<Longrightarrow> le b a"
    and trans: "\<And>a b c. le a b \<Longrightarrow> le b c \<Longrightarrow> le a c"
  shows "sorted_wrt le xs \<Longrightarrow> sorted_wrt le (place le r xs)"
proof (induction xs)
  case Nil
  then show ?case by simp
next
  case (Cons x xs)
  show ?case
  proof (cases "le x r")
    case True
    with Cons show ?thesis by (auto simp: set_place)
  next
    case False
    then have "le r x" by (rule total)
    with Cons.prems have "\<forall>y \<in> set xs. le r y" by (auto intro: trans)
    with False \<open>le r x\<close> Cons.prems show ?thesis by simp
  qed
qed

lemma sorted_fold_place:
  assumes total: "\<And>a b. \<not> le a b \<Longrightarrow> le b a"
    and trans: "\<And>a b c. le a b \<Longrightarrow> le b c \<Longrightarrow> le a c"
  shows "sorted_wrt le acc \<Longrightarrow> sorted_wrt le (fold (place le) rs acc)"
proof (induction rs arbitrary: acc)
  case Nil
  then show ?case by simp
next
  case (Cons r rs)
  have "sorted_wrt le (place le r acc)"
  proof (rule sorted_place)
    show "\<And>a b. \<not> le a b \<Longrightarrow> le b a" by (rule total)
    show "\<And>a b c. le a b \<Longrightarrow> le b c \<Longrightarrow> le a c" by (rule trans)
    show "sorted_wrt le acc" by (rule Cons.prems)
  qed
  then show ?case using Cons.IH by simp
qed

lemma sorted_order_by:
  assumes "\<And>a b. \<not> le a b \<Longrightarrow> le b a"
    and "\<And>a b c. le a b \<Longrightarrow> le b c \<Longrightarrow> le a c"
  shows "sorted_wrt le (order_by le rs)"
  unfolding order_by_def
proof (rule sorted_fold_place)
  show "\<And>a b. \<not> le a b \<Longrightarrow> le b a" by (rule assms(1))
  show "\<And>a b c. le a b \<Longrightarrow> le b c \<Longrightarrow> le a c" by (rule assms(2))
  show "sorted_wrt le []" by simp
qed

lemma sorted_newest_first:
  "sorted_wrt (\<lambda>a b. created_at b \<le> created_at a) (newest_first created_at rs)"
  unfolding newest_first_def
proof (rule sorted_order_by)
  fix a b c :: 'a
  show "\<not> created_at b \<le> created_at a \<Longrightarrow> created_at a \<le> created_at b"
    by (rule linear [THEN disjE]) auto
  show "created_at b \<le> created_at a \<Longrightarrow> created_at c \<le> created_at b \<Longrightarrow>
        created_at c \<le> created_at a"
    by (rule order_trans)
qed

lemma mset_newest_first: "mset (newest_first created_at rs) = mset rs"
  by (simp add: newest_first_def mset_order_by)

lemma sorted_hod_then_name: "sorted_wrt hod_then_name (order_by hod_then_name rs)"
proof (rule sorted_order_by)
  fix a b c :: faculty_row
  show "\<not> hod_then_name a b \<Longrightarrow> hod_then_name b a"
    unfolding hod_then_name_def using linear [of "fac_name a" "fac_name b"] by linarith
  show "hod_then_name a b \<Longrightarrow> hod_then_name b c \<Longrightarrow> hod_then_name a c"
    unfolding hod_then_name_def
    using order_trans [of "fac_name a" "fac_name b" "fac_name c"] by linarith
qed

subsection \<open>Stripping white space\<close>

lemma take_prefix: "take (length w) s = w \<longleftrightarrow> prefix w s"
proof
  assume "take (length w) s = w"
  then have "s = w @ drop (length w) s" by (metis append_take_drop_id)
  then show "prefix w s" by (metis prefixI)
next
  assume "prefix w s"
  then show "take (length w) s = w" by (auto simp: prefix_def)
qed

lemma lstrip_with_decomp:
  "[] \<notin> set ws \<Longrightarrow> \<exists>ps. set ps \<subseteq> set ws \<and> s = concat ps @ lstrip_with ws s"
proof (induction ws s rule: lstrip_with.induct)
  case (1 ws)
  have "set [] \<subseteq> set ws \<and> [] = concat [] @ lstrip_with ws []" by simp
  then show ?case by blast
next
  case (2 ws c cs)
  show ?case
  proof (cases "find (\<lambda>w. take (length w) (c # cs) = w) ws")
    case None
    then have "set [] \<subseteq> set ws \<and> c # cs = concat [] @ lstrip_with ws (c # cs)" by simp
    then show ?thesis by blast
  next
    case (Some w)
    then have w: "w \<in> set ws" "take (length w) (c # cs) = w"
      by (auto simp: find_Some_iff)
    with "2.prems" have ne: "w \<noteq> []" by auto
    from "2.IH" [OF Some "2.prems"] obtain ps where
      ps: "set ps \<subseteq> set ws"
        "drop (length w - 1) cs = concat ps @ lstrip_with ws (drop (length w - 1) cs)"
      by blast
    have dr: "drop (length w) (c # cs) = drop (length w - 1) cs"
      using ne by (cases w) simp_all
    have "c # cs = w @ drop (length w) (c # cs)"
      using w(2) by (metis append_take_drop_id)
    then have e: "c # cs = w @ drop (length w - 1) cs"
      by (simp only: dr)
    have l: "lstrip_with ws (c # cs) = lstrip_with ws (drop (length w - 1) cs)"
      using Some by simp
    have "w @ drop (length w - 1) cs =
        w @ concat ps @ lstrip_with ws (drop (length w - 1) cs)"
      using arg_cong [OF ps(2), of "\<lambda>x. w @ x"] .
    then have "c # cs = concat (w # ps) @ lstrip_with ws (c # cs)"
      unfolding l e [symmetric] by (simp only: concat.simps append_assoc)
    moreover have "set (w # ps) \<subseteq> set ws" using w(1) ps(1) by simp
    ultimately show ?thesis by blast
  qed
qed

lemma lstrip_with_no_prefix:
  "[] \<notin> set ws \<Longrightarrow> w \<in> set ws \<Longrightarrow> \<not> prefix w (lstrip_with ws s)"
proof (induction ws s rule: lstrip_with.induct)
  case (1 ws)
  then show ?case by auto
next
  case (2 ws c cs)
  show ?case
  proof (cases "find (\<lambda>w. take (length w) (c # cs) = w) ws")
    case None
    with "2.prems"(2) have "take (length w) (c # cs) \<noteq> w"
      by (auto simp: find_None_iff)
    then have "\<not> prefix w (c # cs)" by (simp add: take_prefix)
    with None show ?thesis by simp
  next
    case (Some w')
    from "2.IH" [OF Some "2.prems"] Some show ?thesis by simp
  qed
qed

lemma whitespace_nonempty: "[] \<notin> set whitespace" "[] \<notin> set (map rev whitespace)"
  by (simp_all add: whitespace_def)

text \<open>
  \<open>strip\<close> removes white space, and only white space, from both ends: the string is the
  result between two runs of white-space characters, and the result neither starts nor ends
  with a white-space character.
\<close>

lemma strip_decomp:
  "\<exists>a b. (\<exists>ps. set ps \<subseteq> set whitespace \<and> a = concat ps)
       \<and> (\<exists>qs. set qs \<subseteq> set whitespace \<and> b = concat qs)
       \<and> s = a @ strip s @ b"
proof -
  let ?m = "lstrip_with whitespace s"
  let ?r = "lstrip_with (map rev whitespace) (rev ?m)"
  obtain ps where ps: "set ps \<subseteq> set whitespace" "s = concat ps @ ?m"
    using lstrip_with_decomp [OF whitespace_nonempty(1)] by blast
  obtain qs where qs: "set qs \<subseteq> set (map rev whitespace)" "rev ?m = concat qs @ ?r"
    using lstrip_with_decomp [OF whitespace_nonempty(2)] by blast
  have "?m = rev (concat qs @ ?r)" using qs(2) by (metis rev_rev_ident)
  then have m: "?m = strip s @ concat (map rev (rev qs))"
    by (simp add: strip_def rev_concat)
  have "set (map rev (rev qs)) \<subseteq> set whitespace"
    using qs(1) by auto
  with ps m show ?thesis
    by (metis append_assoc)
qed

lemma strip_no_space:
  assumes "w \<in> set whitespace"
  shows "\<not> prefix w (strip s)" and "\<not> suffix w (strip s)"
proof -
  let ?m = "lstrip_with whitespace s"
  let ?r = "lstrip_with (map rev whitespace) (rev ?m)"
  have "rev w \<in> set (map rev whitespace)" using assms by simp
  then have "\<not> prefix (rev w) ?r"
    by (rule lstrip_with_no_prefix [OF whitespace_nonempty(2)])
  then show "\<not> suffix w (strip s)"
    by (simp add: strip_def suffix_to_prefix)
  obtain qs where "rev ?m = concat qs @ ?r"
    using lstrip_with_decomp [OF whitespace_nonempty(2)] by blast
  then have "?m = rev (concat qs @ ?r)" by (metis rev_rev_ident)
  then have "?m = rev ?r @ rev (concat qs)" by (simp only: rev_append)
  then have "prefix (rev ?r) ?m" by (rule prefixI)
  then have "prefix (strip s) ?m" by (simp only: strip_def)
  moreover have "\<not> prefix w ?m"
    by (rule lstrip_with_no_prefix [OF whitespace_nonempty(1) assms])
  ultimately show "\<not> prefix w (strip s)"
    using prefix_order.trans by blast
qed

subsection \<open>Credential check\<close>

lemma lower_strip_ADMIN: "lower (strip ''ADMIN'') = ''admin''"
  by code_simp

lemma login_with_white_space:
  "admin_login (Some (JObj [(''username'', JStr ('' '' @ [CHR 0x09] @ ''Staff'' @ [CHR 0x0A])),
                            (''password'', JStr ''aidsstaff123'')])) =
     (Envelope (JObj [(''success'', JBool True),
                      (''message'', JStr ''Login successful''),
                      (''user'', JStr ''staff'')]), 200)"
  by code_simp

lemma login_with_no_break_space:
  "admin_login (Some (JObj [(''username'', JStr ([CHR 0xC2, CHR 0xA0] @ ''admin'' @ '' '')),
                            (''password'', JStr ''smvec2024'')])) =
     (Envelope (JObj [(''success'', JBool True),
                      (''message'', JStr ''Login successful''),
                      (''user'', JStr ''admin'')]), 200)"
  by code_simp

lemma login_with_inner_space:
  "admin_login (Some (JObj [(''username'', JStr ''ad min''),
                            (''password'', JStr ''smvec2024'')])) =
     (Envelope (JObj [(''success'', JBool False),
                      (''error'', JStr ''Invalid username or password'')]), 401)"
  by code_simp

lemma login_ADMIN:
  "admin_login (Some (JObj [(''username'', JStr ''ADMIN''),
                            (''password'', JStr ''smvec2024'')])) =
     (Envelope (JObj [(''success'', JBool True),
                      (''message'', JStr ''Login successful''),
                      (''user'', JStr ''admin'')]), 200)"
  by code_simp

lemma login_wrong_password:
  "admin_login (Some (JObj [(''username'', JStr ''admin''),
                            (''password'', JStr ''wrong'')])) =
     (Envelope (JObj [(''success'', JBool False),
                      (''error'', JStr ''Invalid username or password'')]), 401)"
  by code_simp

lemma lower_ascii:
  "lower s = map (\<lambda>c. if CHR ''A'' \<le> c \<and> c \<le> CHR ''Z'' then char_of (of_char c + 32 :: nat) else c) s"
  by (simp add: lower_def lower_char_def Let_def less_eq_char_def)

text \<open>
  C6. For a body that is a JSON object whose \<^verbatim>\<open>username\<close>, when present, is a string \<open>u\<close>:
  the login answers 200 with \<^verbatim>\<open>success: true\<close> and \<^verbatim>\<open>user\<close> set to the matched key
  exactly when \<open>u\<close>, stripped of surrounding white space and lower-cased, is one of the
  two keys of the credential table and the submitted password is that key's password;
  in every other case it answers 401 with the error \<^verbatim>\<open>Invalid username or password\<close>.
  Stripping takes a run of white-space characters off each end of \<open>u\<close> and leaves a string
  that neither starts nor ends with one; lower-casing maps the letters A to Z to a to z and
  keeps every other byte. The credential table has exactly the two keys \<^verbatim>\<open>admin\<close> and
  \<^verbatim>\<open>staff\<close>. In particular ADMIN with smvec2024 succeeds as user admin, and admin with the
  password wrong gets the 401; a user name with blanks, a tab, a line feed or a no-break
  space around it is accepted, one with a blank inside it is not.
\<close>

theorem admin_login_checks_credentials:
  assumes "get_default data ''username'' (JStr []) = JStr u"
  shows "admin_login (Some (JObj data)) =
           (if \<exists>(k, pw) \<in> set ADMIN_CREDENTIALS.
                 lower (strip u) = k \<and> get_default data ''password'' (JStr []) = JStr pw
            then (Envelope (JObj [(''success'', JBool True),
                                  (''message'', JStr ''Login successful''),
                                  (''user'', JStr (lower (strip u)))]), 200)
            else (Envelope (JObj [(''success'', JBool False),
                                  (''error'', JStr ''Invalid username or password'')]), 401))
         \<and> (\<exists>a b. (\<exists>ps. set ps \<subseteq> set whitespace \<and> a = concat ps)
                 \<and> (\<exists>qs. set qs \<subseteq> set whitespace \<and> b = concat qs)
                 \<and> u = a @ strip u @ b)
         \<and> (\<forall>w \<in> set whitespace. \<not> prefix w (strip u) \<and> \<not> suffix w (strip u))
         \<and> lower (strip u) =
             map (\<lambda>c. if CHR ''A'' \<le> c \<and> c \<le> CHR ''Z''
                       then char_of (of_char c + 32 :: nat) else c) (strip u)
         \<and> ADMIN_CREDENTIALS = [(''admin'', ''smvec2024''), (''staff'', ''aidsstaff123'')]
         \<and> admin_login (Some (JObj [(''username'', JStr ''ADMIN''),
                                     (''password'', JStr ''smvec2024'')])) =
           (Envelope (JObj [(''success'', JBool True),
                            (''message'', JStr ''Login successful''),
                            (''user'', JStr ''admin'')]), 200)
         \<and> admin_login (Some (JObj [(''username'', JStr ''admin''),
                                     (''password'', JStr ''wrong'')])) =
           (Envelope (JObj [(''success'', JBool False),
                            (''error'', JStr ''Invalid username or password'')]), 401)
         \<and> admin_login (Some (JObj [(''username'',
                                       JStr ('' '' @ [CHR 0x09] @ ''Staff'' @ [CHR 0x0A])),
                                     (''password'', JStr ''aidsstaff123'')])) =
           (Envelope (JObj [(''success'', JBool True),
                            (''message'', JStr ''Login successful''),
                            (''user'', JStr ''staff'')]), 200)
         \<and> admin_login (Some (JObj [(''username'',
                                       JStr ([CHR 0xC2, CHR 0xA0] @ ''admin'' @ '' '')),
                                     (''password'', JStr ''smvec2024'')])) =
           (Envelope (JObj [(''success'', JBool True),
                            (''message'', JStr ''Login successful''),
                            (''user'', JStr ''admin'')]), 200)
         \<and> admin_login (Some (JObj [(''username'', JStr ''ad min''),
                                     (''password'', JStr ''smvec2024'')])) =
           (Envelope (JObj [(''success'', JBool False),
                            (''error'', JStr ''Invalid username or password'')]), 401)"
proof -
  have "admin_login (Some (JObj data)) =
           (if \<exists>(k, pw) \<in> set ADMIN_CREDENTIALS.
                 lower (strip u) = k \<and> get_default data ''password'' (JStr []) = JStr pw
            then (Envelope (JObj [(''success'', JBool True),
                                  (''message'', JStr ''Login successful''),
                                  (''user'', JStr (lower (strip u)))]), 200)
            else (Envelope (JObj [(''success'', JBool False),
                                  (''error'', JStr ''Invalid username or password'')]), 401))"
    using assms by (auto simp: admin_login_def ADMIN_CREDENTIALS_def Let_def)
  moreover have "\<forall>w \<in> set whitespace. \<not> prefix w (strip u) \<and> \<not> suffix w (strip u)"
    using strip_no_space by blast
  moreover note strip_decomp [of u] lower_ascii [of "strip u"] ADMIN_CREDENTIALS_def
    login_ADMIN login_wrong_password login_with_white_space login_with_no_break_space
    login_with_inner_space
  ultimately show ?thesis by (intro conjI)
qed

theorem admin_login_checks_credentials_witness:
  "get_default [(''username'', JStr ''ADMIN''), (''password'', JStr ''smvec2024'')]
     ''username'' (JStr []) = JStr ''ADMIN''
   \<and> admin_login (Some (JObj [(''username'', JStr ''ADMIN''),
                               (''password'', JStr ''smvec2024'')])) =
       (Envelope (JObj [(''success'', JBool True),
                        (''message'', JStr ''Login successful''),
                        (''user'', JStr ''admin'')]), 200)"
proof -
  have h: "get_default [(''username'', JStr ''ADMIN''), (''password'', JStr ''smvec2024'')]
             ''username'' (JStr []) = JStr ''ADMIN''"
    by (simp add: get_default_def)
  show ?thesis
    using h admin_login_checks_credentials [OF h, THEN conjunct1]
    by (simp add: lower_strip_ADMIN ADMIN_CREDENTIALS_def get_default_def)
qed

subsection \<open>Reading one faculty member\<close>

lemma find_unique_id:
  assumes "r \<in> set rs" and "distinct (map rowid rs)"
  shows "find (\<lambda>x. rowid x = rowid r) rs = Some r"
  using assms
proof (induction rs)
  case Nil
  then show ?case by simp
next
  case (Cons x rs)
  then show ?case by (cases "x = r") (auto simp: image_iff)
qed

lemma find_no_id: "(\<forall>r \<in> set rs. rowid r \<noteq> i) \<Longrightarrow> find (\<lambda>x. rowid x = i) rs = None"
  by (simp add: find_None_iff)

lemma get_faculty_by_id_small:
  assumes "faculty d = Some t" and "i < 2 ^ 63"
  shows "get_faculty_by_id i d =
     (case find (\<lambda>r. fac_id r = int i) (rows t) of
        None \<Rightarrow> error_response ''Faculty member not found'' 404
      | Some member \<Rightarrow>
          (Envelope (JObj [(''success'', JBool True), (''data'', faculty_json member)]), 200))"
  using assms
  by (simp add: get_faculty_by_id_def table_of_Some then_do_simps bind_id_small
      split: option.splits)

lemma get_faculty_by_id_large:
  assumes "faculty d = Some t" and "2 ^ 63 \<le> i"
  shows "get_faculty_by_id i d = (Failure OverflowError, 500)"
  using assms
  by (simp add: get_faculty_by_id_def table_of_Some then_do_simps bind_id_large failed_def)

text \<open>
  C7, as stated, fails: no row of the faculty table has the id 2^63, and
  \<^verbatim>\<open>GET /api/faculty/9223372036854775808\<close> is answered with 500, not with 404, because the id
  cannot be bound to the statement.
\<close>

theorem get_faculty_by_id_counterexample:
  "get_faculty_by_id 9223372036854775808 example_db = (Failure OverflowError, 500)"
  by (simp add: get_faculty_by_id_def example_db_def table_of_def then_do_def bind_id_def
      failed_def)

text \<open>
  C7, amended. With the faculty table in place: for every id below 2^63 that no row of the
  table has, \<^verbatim>\<open>GET /api/faculty/{id}\<close> answers 404 with exactly the body
  \<^verbatim>\<open>{success: false, error: "Faculty member not found"}\<close>; for every id that a row has
  (rowids being unique, as a primary key is, and below 2^63) it answers 200 with that
  row's record; for every id from 2^63 on it answers 500.
\<close>

theorem get_faculty_by_id_found_or_404:
  assumes "faculty d = Some t"
  shows "((i < 2 ^ 63 \<and> (\<forall>r \<in> set (rows t). fac_id r \<noteq> int i)) \<longrightarrow>
            get_faculty_by_id i d =
              (Envelope (JObj [(''success'', JBool False),
                               (''error'', JStr ''Faculty member not found'')]), 404))
       \<and> (\<forall>r \<in> set (rows t).
            fac_id r = int i \<and> distinct (map fac_id (rows t)) \<and> i < 2 ^ 63 \<longrightarrow>
            get_faculty_by_id i d =
              (Envelope (JObj [(''success'', JBool True), (''data'', faculty_json r)]), 200))
       \<and> (2 ^ 63 \<le> i \<longrightarrow> get_faculty_by_id i d = (Failure OverflowError, 500))"
proof (intro conjI impI ballI)
  assume a: "i < 2 ^ 63 \<and> (\<forall>r \<in> set (rows t). fac_id r \<noteq> int i)"
  then have "find (\<lambda>x. fac_id x = int i) (rows t) = None" by (intro find_no_id) simp
  with a assms show "get_faculty_by_id i d =
      (Envelope (JObj [(''success'', JBool False),
                       (''error'', JStr ''Faculty member not found'')]), 404)"
    by (simp add: get_faculty_by_id_small error_response_def)
next
  fix r
  assume r: "r \<in> set (rows t)"
    and a: "fac_id r = int i \<and> distinct (map fac_id (rows t)) \<and> i < 2 ^ 63"
  then have "find (\<lambda>x. fac_id x = int i) (rows t) = Some r"
    using find_unique_id [of r "rows t" fac_id] by auto
  with a assms show "get_faculty_by_id i d =
      (Envelope (JObj [(''success'', JBool True), (''data'', faculty_json r)]), 200)"
    by (simp add: get_faculty_by_id_small)
next
  assume "2 ^ 63 \<le> i"
  with assms show "get_faculty_by_id i d = (Failure OverflowError, 500)"
    by (rule get_faculty_by_id_large)
qed

theorem get_faculty_by_id_found_or_404_witness:
  "faculty example_db = Some (the (faculty example_db))
   \<and> get_faculty_by_id 9999 example_db =
       (Envelope (JObj [(''success'', JBool False),
                        (''error'', JStr ''Faculty member not found'')]), 404)
   \<and> get_faculty_by_id 2 example_db =
       (Envelope (JObj [(''success'', JBool True),
          (''data'', JObj [(''id'', JNum 2), (''name'', JStr ''Dr. Rajesh Kumar''),
                           (''designation'', JStr ''Head of Department''),
                           (''subject'', JStr ''Deep Learning''), (''bio'', JNull),
                           (''email'', JNull), (''isHod'', JBool True)])]), 200)"
proof -
  have h: "faculty example_db = Some (the (faculty example_db))"
    by (simp add: example_db_def)
  show ?thesis
    using h get_faculty_by_id_found_or_404 [OF h, of 9999]
      get_faculty_by_id_found_or_404 [OF h, of 2]
    by (simp add: example_db_def faculty_json_def opt_json_def)
qed

subsection \<open>Deleting\<close>

lemma delete_row_absent:
  "(\<forall>r \<in> set (rows t). rowid r \<noteq> i) \<Longrightarrow> delete_row rowid i t = t"
  by (simp add: delete_row_def filter_id_conv)

lemma delete_row_twice: "delete_row rowid i (delete_row rowid i t) = delete_row rowid i t"
  by (simp add: delete_row_def)

lemma rows_delete_row: "set (rows (delete_row rowid i t)) = {r \<in> set (rows t). rowid r \<noteq> i}"
  by (auto simp: delete_row_def)

lemma delete_faculty_small:
  assumes "faculty d = Some t" and "i < 2 ^ 63"
  shows "delete_faculty i d =
     (d\<lparr>faculty := Some (delete_row fac_id (int i) t)\<rparr>, success_message ''Faculty member deleted successfully!'')"
  using assms
  by (simp add: delete_faculty_def table_of_Some then_do_simps bind_id_small)

lemma delete_faculty_large:
  assumes "faculty d = Some t" and "2 ^ 63 \<le> i"
  shows "delete_faculty i d = (d, (Failure OverflowError, 500))"
  using assms
  by (simp add: delete_faculty_def table_of_Some then_do_simps bind_id_large failed_def)

lemma delete_faculty_absent:
  assumes "faculty d = Some t" and "i < 2 ^ 63" and "\<forall>r \<in> set (rows t). fac_id r \<noteq> int i"
  shows "delete_faculty i d = (d, success_message ''Faculty member deleted successfully!'')"
  using assms by (simp add: delete_faculty_small delete_row_absent)

lemma delete_faculty_again:
  assumes "faculty d = Some t" and "i < 2 ^ 63"
  shows "snd (delete_faculty i d) = success_message ''Faculty member deleted successfully!''"
    and "delete_faculty i (fst (delete_faculty i d)) =
           (fst (delete_faculty i d), success_message ''Faculty member deleted successfully!'')"
  using assms by (simp_all add: delete_faculty_small delete_row_twice)

lemma delete_achievement_small:
  assumes "achievements d = Some t" and "i < 2 ^ 63"
  shows "delete_achievement i d =
     (d\<lparr>achievements := Some (delete_row ach_id (int i) t)\<rparr>, success_message ''Achievement deleted successfully!'')"
  using assms
  by (simp add: delete_achievement_def table_of_Some then_do_simps bind_id_small)

lemma delete_achievement_large:
  assumes "achievements d = Some t" and "2 ^ 63 \<le> i"
  shows "delete_achievement i d = (d, (Failure OverflowError, 500))"
  using assms
  by (simp add: delete_achievement_def table_of_Some then_do_simps bind_id_large failed_def)

lemma delete_achievement_absent:
  assumes "achievements d = Some t" and "i < 2 ^ 63" and "\<forall>r \<in> set (rows t). ach_id r \<noteq> int i"
  shows "delete_achievement i d = (d, success_message ''Achievement deleted successfully!'')"
  using assms by (simp add: delete_achievement_small delete_row_absent)

lemma delete_achievement_again:
  assumes "achievements d = Some t" and "i < 2 ^ 63"
  shows "snd (delete_achievement i d) = success_message ''Achievement deleted successfully!''"
    and "delete_achievement i (fst (delete_achievement i d)) =
           (fst (delete_achievement i d), success_message ''Achievement deleted successfully!'')"
  using assms by (simp_all add: delete_achievement_small delete_row_twice)

lemma delete_gallery_small:
  assumes "gallery d = Some t" and "i < 2 ^ 63"
  shows "delete_gallery i d =
     (d\<lparr>gallery := Some (delete_row img_id (int i) t)\<rparr>, success_message ''Gallery image deleted successfully!'')"
  using assms
  by (simp add: delete_gallery_def table_of_Some then_do_simps bind_id_small)

lemma delete_gallery_large:
  assumes "gallery d = Some t" and "2 ^ 63 \<le> i"
  shows "delete_gallery i d = (d, (Failure OverflowError, 500))"
  using assms
  by (simp add: delete_gallery_def table_of_Some then_do_simps bind_id_large failed_def)

lemma delete_gallery_absent:
  assumes "gallery d = Some t" and "i < 2 ^ 63" and "\<forall>r \<in> set (rows t). img_id r \<noteq> int i"
  shows "delete_gallery i d = (d, success_message ''Gallery image deleted successfully!'')"
  using assms by (simp add: delete_gallery_small delete_row_absent)

lemma delete_gallery_again:
  assumes "gallery d = Some t" and "i < 2 ^ 63"
  shows "snd (delete_gallery i d) = success_message ''Gallery image deleted successfully!''"
    and "delete_gallery i (fst (delete_gallery i d)) =
           (fst (delete_gallery i d), success_message ''Gallery image deleted successfully!'')"
  using assms by (simp_all add: delete_gallery_small delete_row_twice)

text \<open>
  C2, as stated, fails: no row of the faculty table has the id 2^63, and
  \<^verbatim>\<open>DELETE /api/faculty/9223372036854775808\<close> is answered with 500, not with 200, because
  the id cannot be bound to the statement. The store is left as it was.
\<close>

theorem delete_absent_id_counterexample:
  "delete_faculty 9223372036854775808 example_db = (example_db, (Failure OverflowError, 500))"
  by (simp add: delete_faculty_def example_db_def table_of_def then_do_def bind_id_def
      failed_def)

text \<open>
  C2, amended. With the three tables in place: for every id below 2^63 that no row of the
  table has, \<^verbatim>\<open>DELETE /api/faculty/{id}\<close>, \<^verbatim>\<open>DELETE /api/achievements/{id}\<close> and
  \<^verbatim>\<open>DELETE /api/gallery/{id}\<close> each answer 200 with \<^verbatim>\<open>success: true\<close> and their deletion
  message (not 404), and leave the store as it was. For every id below 2^63, deleting it a
  second time gives the same success response as the first time and changes nothing more.
  For every id from 2^63 on the answer is 500 and the store is left as it was.
\<close>

theorem delete_absent_id_is_success:
  assumes "faculty d = Some tf" and "achievements d = Some ta" and "gallery d = Some tg"
  shows
   "(i < 2 ^ 63 \<longrightarrow>
      ((\<forall>r \<in> set (rows tf). fac_id r \<noteq> int i) \<longrightarrow>
         delete_faculty i d =
           (d, (Envelope (JObj [(''success'', JBool True),
                  (''message'', JStr ''Faculty member deleted successfully!'')]), 200)))
    \<and> snd (delete_faculty i d) = snd (delete_faculty i (fst (delete_faculty i d)))
    \<and> snd (delete_faculty i d) =
         (Envelope (JObj [(''success'', JBool True),
            (''message'', JStr ''Faculty member deleted successfully!'')]), 200)
    \<and> fst (delete_faculty i (fst (delete_faculty i d))) = fst (delete_faculty i d)
    \<and>       ((\<forall>r \<in> set (rows ta). ach_id r \<noteq> int i) \<longrightarrow>
         delete_achievement i d =
           (d, (Envelope (JObj [(''success'', JBool True),
                  (''message'', JStr ''Achievement deleted successfully!'')]), 200)))
    \<and> snd (delete_achievement i d) = snd (delete_achievement i (fst (delete_achievement i d)))
    \<and> snd (delete_achievement i d) =
         (Envelope (JObj [(''success'', JBool True),
            (''message'', JStr ''Achievement deleted successfully!'')]), 200)
    \<and> fst (delete_achievement i (fst (delete_achievement i d))) = fst (delete_achievement i d)
    \<and>       ((\<forall>r \<in> set (rows tg). img_id r \<noteq> int i) \<longrightarrow>
         delete_gallery i d =
           (d, (Envelope (JObj [(''success'', JBool True),
                  (''message'', JStr ''Gallery image deleted successfully!'')]), 200)))
    \<and> snd (delete_gallery i d) = snd (delete_gallery i (fst (delete_gallery i d)))
    \<and> snd (delete_gallery i d) =
         (Envelope (JObj [(''success'', JBool True),
            (''message'', JStr ''Gallery image deleted successfully!'')]), 200)
    \<and> fst (delete_gallery i (fst (delete_gallery i d))) = fst (delete_gallery i d))
  \<and> (2 ^ 63 \<le> i \<longrightarrow>
        delete_faculty i d = (d, (Failure OverflowError, 500))
      \<and> delete_achievement i d = (d, (Failure OverflowError, 500))
      \<and> delete_gallery i d = (d, (Failure OverflowError, 500)))"
  using assms
  by (simp add: delete_faculty_absent delete_achievement_absent delete_gallery_absent
      delete_faculty_again delete_achievement_again delete_gallery_again
      delete_faculty_large delete_achievement_large delete_gallery_large
      success_message_def [symmetric])

theorem delete_absent_id_is_success_witness:
  "faculty example_db = Some (the (faculty example_db))
   \<and> achievements example_db = Some (the (achievements example_db))
   \<and> gallery example_db = Some (the (gallery example_db))
   \<and> delete_faculty 9999 example_db =
         (example_db, (Envelope (JObj [(''success'', JBool True),
            (''message'', JStr ''Faculty member deleted successfully!'')]), 200))
   \<and> delete_achievement 9999 example_db =
         (example_db, (Envelope (JObj [(''success'', JBool True),
            (''message'', JStr ''Achievement deleted successfully!'')]), 200))
   \<and> delete_gallery 9999 example_db =
         (example_db, (Envelope (JObj [(''success'', JBool True),
            (''message'', JStr ''Gallery image deleted successfully!'')]), 200))"
proof -
  have h: "faculty example_db = Some (the (faculty example_db))"
    "achievements example_db = Some (the (achievements example_db))"
    "gallery example_db = Some (the (gallery example_db))"
    by (simp_all add: example_db_def)
  show ?thesis
    using h delete_absent_id_is_success [OF h, of 9999]
    by (simp add: example_db_def)
qed

subsection \<open>Listings\<close>

lemma hod_then_name_flags:
  assumes "fac_is_hod a \<in> {0, 1}" and "fac_is_hod b \<in> {0, 1}" and "hod_then_name a b"
  shows "(fac_is_hod a \<noteq> 0 \<or> fac_is_hod b = 0)
       \<and> ((fac_is_hod a \<noteq> 0) = (fac_is_hod b \<noteq> 0) \<longrightarrow> fac_name a \<le> fac_name b)"
  using assms by (auto simp: hod_then_name_def)

text \<open>
  C5. With the faculty table in place and every \<^verbatim>\<open>is_hod\<close> flag 0 or 1:
  \<^verbatim>\<open>GET /api/faculty\<close> answers 200 with all the rows of the table, each once, in an order
  in which no row with isHod false comes before a row with isHod true, and in which rows
  with the same flag are in ascending order of their names (compared as SQLite compares
  text, byte by byte).
\<close>

theorem get_faculty_hod_first_then_name:
  assumes "faculty d = Some t" and "\<forall>r \<in> set (rows t). fac_is_hod r \<in> {0, 1}"
  shows "\<exists>rs. get_faculty d =
              (Envelope (JObj [(''success'', JBool True), (''data'', JArr (map faculty_json rs)),
                               (''count'', JNum (int (length (map faculty_json rs))))]), 200)
            \<and> mset rs = mset (rows t)
            \<and> (\<forall>i j. i < j \<and> j < length rs \<longrightarrow>
                  (fac_is_hod (rs ! i) \<noteq> 0 \<or> fac_is_hod (rs ! j) = 0)
                \<and> ((fac_is_hod (rs ! i) \<noteq> 0) = (fac_is_hod (rs ! j) \<noteq> 0) \<longrightarrow>
                     fac_name (rs ! i) \<le> fac_name (rs ! j)))"
proof (intro exI conjI allI impI)
  let ?rs = "order_by hod_then_name (rows t)"
  show "get_faculty d =
      (Envelope (JObj [(''success'', JBool True), (''data'', JArr (map faculty_json ?rs)),
                       (''count'', JNum (int (length (map faculty_json ?rs))))]), 200)"
    using assms(1) by (simp add: get_faculty_def data_list_def)
  show "mset ?rs = mset (rows t)" by (rule mset_order_by)
  fix i j
  assume ij: "i < j \<and> j < length ?rs"
  then have "hod_then_name (?rs ! i) (?rs ! j)"
    using sorted_hod_then_name [of "rows t"] by (simp add: sorted_wrt_iff_nth_less)
  moreover have "?rs ! i \<in> set (rows t)" "?rs ! j \<in> set (rows t)"
    using ij nth_mem [of i ?rs] nth_mem [of j ?rs] by (simp_all add: set_order_by)
  ultimately have *: "(fac_is_hod (?rs ! i) \<noteq> 0 \<or> fac_is_hod (?rs ! j) = 0)
       \<and> ((fac_is_hod (?rs ! i) \<noteq> 0) = (fac_is_hod (?rs ! j) \<noteq> 0) \<longrightarrow>
            fac_name (?rs ! i) \<le> fac_name (?rs ! j))"
    using assms(2) hod_then_name_flags by blast
  from * show "fac_is_hod (?rs ! i) \<noteq> 0 \<or> fac_is_hod (?rs ! j) = 0" by blast
  from * show "(fac_is_hod (?rs ! i) \<noteq> 0) = (fac_is_hod (?rs ! j) \<noteq> 0) \<Longrightarrow>
      fac_name (?rs ! i) \<le> fac_name (?rs ! j)" by blast
qed

theorem get_faculty_hod_first_then_name_witness:
  "faculty example_db = Some (the (faculty example_db))
   \<and> (\<exists>rs. get_faculty example_db =
              (Envelope (JObj [(''success'', JBool True), (''data'', JArr (map faculty_json rs)),
                               (''count'', JNum (int (length (map faculty_json rs))))]), 200)
            \<and> mset rs = mset (rows (the (faculty example_db)))
            \<and> (\<forall>i j. i < j \<and> j < length rs \<longrightarrow>
                  (fac_is_hod (rs ! i) \<noteq> 0 \<or> fac_is_hod (rs ! j) = 0)
                \<and> ((fac_is_hod (rs ! i) \<noteq> 0) = (fac_is_hod (rs ! j) \<noteq> 0) \<longrightarrow>
                     fac_name (rs ! i) \<le> fac_name (rs ! j))))"
proof -
  have h: "faculty example_db = Some (the (faculty example_db))"
    by (simp add: example_db_def)
  have f: "\<forall>r \<in> set (rows (the (faculty example_db))). fac_is_hod r \<in> {0, 1}"
    by (simp add: example_db_def)
  show ?thesis
    using h f get_faculty_hod_first_then_name [OF h f] by blast
qed

lemma show_all_cases:
  "\<not> show_all None \<and> show_all (Some ''true'') \<and> show_all (Some ''TRUE'')"
  by code_simp

lemma select_achievements_props:
  assumes "\<forall>r \<in> set (rows t). ach_is_active r \<in> {0, 1}"
  shows "mset (select_achievements everything t) =
           mset (if everything then rows t else filter (\<lambda>r. ach_is_active r \<noteq> 0) (rows t))"
    and "sorted_wrt (\<lambda>a b. ach_created_at b \<le> ach_created_at a) (select_achievements everything t)"
proof -
  have "filter (\<lambda>r. ach_is_active r = 1) (rows t) = filter (\<lambda>r. ach_is_active r \<noteq> 0) (rows t)"
    using assms by (intro filter_cong) auto
  then show "mset (select_achievements everything t) =
           mset (if everything then rows t else filter (\<lambda>r. ach_is_active r \<noteq> 0) (rows t))"
    by (simp add: select_achievements_def mset_newest_first)
  show "sorted_wrt (\<lambda>a b. ach_created_at b \<le> ach_created_at a) (select_achievements everything t)"
    by (simp add: select_achievements_def sorted_newest_first)
qed

lemma select_gallery_props:
  assumes "\<forall>r \<in> set (rows t). img_is_active r \<in> {0, 1}"
  shows "mset (select_gallery everything t) =
           mset (if everything then rows t else filter (\<lambda>r. img_is_active r \<noteq> 0) (rows t))"
    and "sorted_wrt (\<lambda>a b. img_created_at b \<le> img_created_at a) (select_gallery everything t)"
proof -
  have "filter (\<lambda>r. img_is_active r = 1) (rows t) = filter (\<lambda>r. img_is_active r \<noteq> 0) (rows t)"
    using assms by (intro filter_cong) auto
  then show "mset (select_gallery everything t) =
           mset (if everything then rows t else filter (\<lambda>r. img_is_active r \<noteq> 0) (rows t))"
    by (simp add: select_gallery_def mset_newest_first)
  show "sorted_wrt (\<lambda>a b. img_created_at b \<le> img_created_at a) (select_gallery everything t)"
    by (simp add: select_gallery_def sorted_newest_first)
qed

text \<open>
  C4, as stated, fails: a request whose query parameter is \<^verbatim>\<open>all=TRUE\<close> is a request
  without \<^verbatim>\<open>all=true\<close>, and it is answered with every row, the inactive one included.
\<close>

theorem listing_all_flag_counterexample:
  "Some ''TRUE'' \<noteq> Some ''true''
   \<and> get_achievements (Some ''TRUE'') example_db =
       (Envelope (JObj
          [(''success'', JBool True),
           (''data'', JArr
              [JObj [(''id'', JNum 2), (''icon'', JStr trophy), (''title'', JStr ''Old News''),
                     (''description'', JStr ''No longer shown''),
                     (''category'', JStr ''general''), (''isActive'', JBool False),
                     (''createdAt'', JStr ''2024-04-02 09:00:00'')],
               JObj [(''id'', JNum 1), (''icon'', JStr trophy),
                     (''title'', JStr ''Hackathon Champions''),
                     (''description'', JStr ''Students won Smart India Hackathon 2024''),
                     (''category'', JStr ''competition''), (''isActive'', JBool True),
                     (''createdAt'', JStr ''2024-04-01 09:00:00'')]]),
           (''count'', JNum 2)]), 200)"
  by code_simp

text \<open>
  C4, amended. With the achievements and gallery tables in place and every
  \<^verbatim>\<open>is_active\<close> flag 0 or 1: \<^verbatim>\<open>GET /api/achievements\<close> and \<^verbatim>\<open>GET /api/gallery\<close> answer
  with every row, inactive ones included, when the request has a query parameter
  \<^verbatim>\<open>all\<close> whose value is \<^verbatim>\<open>true\<close> in any letter case, and with exactly the rows whose
  isActive is true otherwise; in both cases each such row is returned once, the sequence
  is in descending order of creation time, and \<^verbatim>\<open>count\<close> is the length of \<^verbatim>\<open>data\<close>.
\<close>

theorem listings_filter_active_newest_first:
  assumes "achievements d = Some ta" and "\<forall>r \<in> set (rows ta). ach_is_active r \<in> {0, 1}"
    and "gallery d = Some tg" and "\<forall>r \<in> set (rows tg). img_is_active r \<in> {0, 1}"
  shows "\<exists>ra rg.
      get_achievements arg d =
        (Envelope (JObj [(''success'', JBool True), (''data'', JArr (map achievement_json ra)),
                         (''count'', JNum (int (length (map achievement_json ra))))]), 200)
    \<and> mset ra = mset (if (case arg of None \<Rightarrow> False | Some v \<Rightarrow> lower v = ''true'')
                        then rows ta else filter (\<lambda>r. ach_is_active r \<noteq> 0) (rows ta))
    \<and> sorted_wrt (\<lambda>a b. ach_created_at b \<le> ach_created_at a) ra
    \<and> get_gallery arg d =
        (Envelope (JObj [(''success'', JBool True), (''data'', JArr (map gallery_json rg)),
                         (''count'', JNum (int (length (map gallery_json rg))))]), 200)
    \<and> mset rg = mset (if (case arg of None \<Rightarrow> False | Some v \<Rightarrow> lower v = ''true'')
                        then rows tg else filter (\<lambda>r. img_is_active r \<noteq> 0) (rows tg))
    \<and> sorted_wrt (\<lambda>a b. img_created_at b \<le> img_created_at a) rg"
proof -
  have sa: "show_all arg = (case arg of None \<Rightarrow> False | Some v \<Rightarrow> lower v = ''true'')"
    using show_all_cases by (cases arg) (simp_all add: show_all_def)
  let ?ra = "select_achievements (show_all arg) ta"
  let ?rg = "select_gallery (show_all arg) tg"
  have "get_achievements arg d =
        (Envelope (JObj [(''success'', JBool True), (''data'', JArr (map achievement_json ?ra)),
                         (''count'', JNum (int (length (map achievement_json ?ra))))]), 200)"
    using assms(1) by (simp add: get_achievements_def data_list_def)
  moreover have "get_gallery arg d =
        (Envelope (JObj [(''success'', JBool True), (''data'', JArr (map gallery_json ?rg)),
                         (''count'', JNum (int (length (map gallery_json ?rg))))]), 200)"
    using assms(3) by (simp add: get_gallery_def data_list_def)
  moreover note select_achievements_props [OF assms(2), of "show_all arg"]
    select_gallery_props [OF assms(4), of "show_all arg"]
  ultimately show ?thesis unfolding sa by blast
qed

theorem listings_filter_active_newest_first_witness:
  "achievements example_db = Some (the (achievements example_db))
   \<and> gallery example_db = Some (the (gallery example_db))
   \<and> (\<exists>ra rg.
      get_achievements None example_db =
        (Envelope (JObj [(''success'', JBool True), (''data'', JArr (map achievement_json ra)),
                         (''count'', JNum (int (length (map achievement_json ra))))]), 200)
    \<and> mset ra = mset (filter (\<lambda>r. ach_is_active r \<noteq> 0) (rows (the (achievements example_db))))
    \<and> sorted_wrt (\<lambda>a b. ach_created_at b \<le> ach_created_at a) ra
    \<and> get_gallery None example_db =
        (Envelope (JObj [(''success'', JBool True), (''data'', JArr (map gallery_json rg)),
                         (''count'', JNum (int (length (map gallery_json rg))))]), 200)
    \<and> mset rg = mset (filter (\<lambda>r. img_is_active r \<noteq> 0) (rows (the (gallery example_db))))
    \<and> sorted_wrt (\<lambda>a b. img_created_at b \<le> img_created_at a) rg)"
proof -
  have h: "achievements example_db = Some (the (achievements example_db))"
    "\<forall>r \<in> set (rows (the (achievements example_db))). ach_is_active r \<in> {0, 1}"
    "gallery example_db = Some (the (gallery example_db))"
    "\<forall>r \<in> set (rows (the (gallery example_db))). img_is_active r \<in> {0, 1}"
    by (simp_all add: example_db_def)
  show ?thesis
    using h listings_filter_active_newest_first [OF h, of None] by simp
qed

subsection \<open>Validation of create requests\<close>

lemma find_first:
  "\<forall>x \<in> set pre. \<not> P x \<Longrightarrow> P f \<Longrightarrow> find P (pre @ f # post) = Some f"
  by (induction pre) auto

lemma missing_or_empty_not_truthy:
  "map_of data k = None \<or> map_of data k = Some (JStr []) \<Longrightarrow> \<not> truthy (get data k)"
  by (auto simp: get_def)

lemma submit_contact_rejects:
  assumes "[''firstName'', ''lastName'', ''email'', ''subject'', ''message''] = pre @ f # post"
    and "\<forall>g \<in> set pre. truthy (get data g)" and "\<not> truthy (get data f)"
  shows "submit_contact now (Some (JObj data)) d = (d, error_response (f @ '' is required'') 400)"
proof -
  have "find (\<lambda>field. \<not> truthy (get data field)) (pre @ f # post) = Some f"
    using assms(2,3) by (intro find_first) auto
  then show ?thesis
    unfolding submit_contact_def assms(1) by simp
qed

lemma add_faculty_rejects:
  assumes "[''name'', ''designation'', ''subject''] = pre @ f # post"
    and "\<forall>g \<in> set pre. truthy (get data g)" and "\<not> truthy (get data f)"
  shows "add_faculty (Some (JObj data)) d = (d, error_response (f @ '' is required'') 400)"
proof -
  have "find (\<lambda>field. \<not> truthy (get data field)) (pre @ f # post) = Some f"
    using assms(2,3) by (intro find_first) auto
  then show ?thesis
    unfolding add_faculty_def assms(1) by simp
qed

lemma add_achievement_rejects:
  assumes "\<not> truthy (get data ''title'') \<or> \<not> truthy (get data ''description'')"
  shows "add_achievement now (Some (JObj data)) d =
           (d, error_response ''Title and description are required'' 400)"
  using assms by (auto simp: add_achievement_def)

lemma add_gallery_rejects:
  assumes "\<not> truthy (get data ''imageUrl'') \<or> \<not> truthy (get data ''caption'')"
  shows "add_gallery now (Some (JObj data)) d =
           (d, error_response ''Image URL and caption are required'' 400)"
  using assms by (auto simp: add_gallery_def)

text \<open>
  C1, as stated, fails: an achievement posted without a title is refused with 400, but the
  error does not name the field; it is the fixed text \<^verbatim>\<open>Title and description are required\<close>.
\<close>

theorem create_validation_counterexample:
  "add_achievement ''2024-05-01 09:00:00'' (Some (JObj [(''description'', JStr ''Won'')]))
     example_db =
     (example_db, (Envelope (JObj [(''success'', JBool False),
        (''error'', JStr ''Title and description are required'')]), 400))
   \<and> snd (add_achievement ''2024-05-01 09:00:00'' (Some (JObj [(''description'', JStr ''Won'')]))
          example_db) \<noteq>
     (Envelope (JObj [(''success'', JBool False), (''error'', JStr ''title is required'')]), 400)"
  by (simp add: add_achievement_def get_def error_response_def)

text \<open>
  C1, amended. For every create request whose body is a JSON object in which a mandatory
  field is missing or has an empty value (any value Python takes for false: null, the
  empty string, false, 0, an empty list or object), the handler answers 400 and leaves the
  store exactly as it was. \<^verbatim>\<open>POST /api/contact\<close> (firstName, lastName, email, subject,
  message) and \<^verbatim>\<open>POST /api/faculty\<close> (name, designation, subject) answer
  \<^verbatim>\<open>{success: false, error: "<field> is required"}\<close> for the first such field in that order;
  \<^verbatim>\<open>POST /api/achievements\<close> answers with the error \<^verbatim>\<open>Title and description are required\<close>
  and \<^verbatim>\<open>POST /api/gallery\<close> with \<^verbatim>\<open>Image URL and caption are required\<close>, whichever of the
  two fields is missing.
\<close>

theorem create_validation_rejects_missing_field:
  "(([''firstName'', ''lastName'', ''email'', ''subject'', ''message''] = pre @ f # post
      \<and> (\<forall>g \<in> set pre. truthy (get data g)) \<and> \<not> truthy (get data f)) \<longrightarrow>
     submit_contact now (Some (JObj data)) d =
       (d, (Envelope (JObj [(''success'', JBool False),
              (''error'', JStr (f @ '' is required''))]), 400)))
   \<and> (([''name'', ''designation'', ''subject''] = pre @ f # post
      \<and> (\<forall>g \<in> set pre. truthy (get data g)) \<and> \<not> truthy (get data f)) \<longrightarrow>
     add_faculty (Some (JObj data)) d =
       (d, (Envelope (JObj [(''success'', JBool False),
              (''error'', JStr (f @ '' is required''))]), 400)))
   \<and> ((\<not> truthy (get data ''title'') \<or> \<not> truthy (get data ''description'')) \<longrightarrow>
     add_achievement now (Some (JObj data)) d =
       (d, (Envelope (JObj [(''success'', JBool False),
              (''error'', JStr ''Title and description are required'')]), 400)))
   \<and> ((\<not> truthy (get data ''imageUrl'') \<or> \<not> truthy (get data ''caption'')) \<longrightarrow>
     add_gallery now (Some (JObj data)) d =
       (d, (Envelope (JObj [(''success'', JBool False),
              (''error'', JStr ''Image URL and caption are required'')]), 400)))
   \<and> ((map_of data k = None \<or> map_of data k = Some (JStr [])) \<longrightarrow> \<not> truthy (get data k))"
  using submit_contact_rejects [of pre f post data now d]
    add_faculty_rejects [of pre f post data d]
    add_achievement_rejects [of data now d] add_gallery_rejects [of data now d]
    missing_or_empty_not_truthy [of data k]
  unfolding error_response_def by blast

theorem create_validation_rejects_missing_field_witness:
  "submit_contact ''2024-05-01 09:00:00''
      (Some (JObj [(''firstName'', JStr ''Jane''), (''lastName'', JStr [])])) example_db =
       (example_db, (Envelope (JObj [(''success'', JBool False),
              (''error'', JStr ''lastName is required'')]), 400))
   \<and> add_faculty (Some (JObj [(''subject'', JStr ''Machine Learning'')])) example_db =
       (example_db, (Envelope (JObj [(''success'', JBool False),
              (''error'', JStr ''name is required'')]), 400))
   \<and> add_achievement ''2024-05-01 09:00:00''
      (Some (JObj [(''firstName'', JStr ''Jane''), (''lastName'', JStr [])])) example_db =
       (example_db, (Envelope (JObj [(''success'', JBool False),
              (''error'', JStr ''Title and description are required'')]), 400))
   \<and> add_gallery ''2024-05-01 09:00:00''
      (Some (JObj [(''firstName'', JStr ''Jane''), (''lastName'', JStr [])])) example_db =
       (example_db, (Envelope (JObj [(''success'', JBool False),
              (''error'', JStr ''Image URL and caption are required'')]), 400))"
  using create_validation_rejects_missing_field
    [of "[''firstName'']" "''lastName''" "[''email'', ''subject'', ''message'']"
        "[(''firstName'', JStr ''Jane''), (''lastName'', JStr [])]"
        "''2024-05-01 09:00:00''" example_db]
    create_validation_rejects_missing_field
    [of "[]" "''name''" "[''designation'', ''subject'']"
        "[(''subject'', JStr ''Machine Learning'')]" _ example_db]
  by (simp add: get_def)

subsection \<open>The contact table is only appended to\<close>

lemma insert_contact_messages_appends:
  assumes "insert_contact_messages now a1 a2 a3 a4 a5 a6 n d = Inr (d', i)"
  shows "\<exists>t. contact_messages d = Some t
           \<and> d' = d\<lparr>contact_messages :=
                      Some \<lparr>rows = rows t @ [last (rows (the (contact_messages d')))], seq = i\<rparr>\<rparr>
           \<and> msg_id (last (rows (the (contact_messages d')))) = i
           \<and> i = next_rowid msg_id t
           \<and> msg_created_at (last (rows (the (contact_messages d')))) = now"
  using assms unfolding insert_contact_messages_def
  by (auto dest!: then_do_Inr table_of_Inr simp: store_contact_def append_row_def Let_def)

lemma insert_faculty_frame:
  "insert_faculty a1 a2 a3 a4 a5 n d = Inr (d', i) \<Longrightarrow> contact_messages d' = contact_messages d"
  unfolding insert_faculty_def
  by (auto dest!: then_do_Inr simp: store_faculty_def Let_def)

lemma insert_achievements_frame:
  "insert_achievements now a1 a2 a3 a4 n d = Inr (d', i) \<Longrightarrow>
   contact_messages d' = contact_messages d"
  unfolding insert_achievements_def
  by (auto dest!: then_do_Inr simp: store_achievement_def Let_def)

lemma insert_gallery_frame:
  "insert_gallery now a1 a2 a3 n d = Inr (d', i) \<Longrightarrow> contact_messages d' = contact_messages d"
  unfolding insert_gallery_def
  by (auto dest!: then_do_Inr simp: store_gallery_def Let_def)

lemma update_faculty_row_frame:
  "update_faculty_row a1 a2 a3 a4 a5 n i d = Inr d' \<Longrightarrow> contact_messages d' = contact_messages d"
  unfolding update_faculty_row_def
  by (auto dest!: then_do_Inr split: if_splits)

lemma update_achievements_row_frame:
  "update_achievements_row a1 a2 a3 a4 n i d = Inr d' \<Longrightarrow>
   contact_messages d' = contact_messages d"
  unfolding update_achievements_row_def
  by (auto dest!: then_do_Inr split: if_splits)

lemma update_gallery_row_frame:
  "update_gallery_row a1 a2 a3 n i d = Inr d' \<Longrightarrow> contact_messages d' = contact_messages d"
  unfolding update_gallery_row_def
  by (auto dest!: then_do_Inr split: if_splits)

lemma add_faculty_frame: "contact_messages (fst (add_faculty req d)) = contact_messages d"
  unfolding add_faculty_def
  by (auto split: option.splits json.splits sum.splits dest!: then_do_Inr dest: insert_faculty_frame)

lemma add_achievement_frame:
  "contact_messages (fst (add_achievement now req d)) = contact_messages d"
  unfolding add_achievement_def
  by (auto split: option.splits json.splits sum.splits dest!: then_do_Inr dest: insert_achievements_frame)

lemma add_gallery_frame: "contact_messages (fst (add_gallery now req d)) = contact_messages d"
  unfolding add_gallery_def
  by (auto split: option.splits json.splits sum.splits dest!: then_do_Inr dest: insert_gallery_frame)

lemma update_faculty_frame:
  "contact_messages (fst (update_faculty i req d)) = contact_messages d"
  unfolding update_faculty_def
  by (auto split: option.splits json.splits sum.splits dest: update_faculty_row_frame)

lemma update_achievement_frame:
  "contact_messages (fst (update_achievement i req d)) = contact_messages d"
  unfolding update_achievement_def
  by (auto split: option.splits json.splits sum.splits dest: update_achievements_row_frame)

lemma update_gallery_frame:
  "contact_messages (fst (update_gallery i req d)) = contact_messages d"
  unfolding update_gallery_def
  by (auto split: option.splits json.splits sum.splits dest: update_gallery_row_frame)

lemma delete_frame:
  "contact_messages (fst (delete_faculty i d)) = contact_messages d"
  "contact_messages (fst (delete_achievement i d)) = contact_messages d"
  "contact_messages (fst (delete_gallery i d)) = contact_messages d"
  by (simp_all add: delete_faculty_def delete_achievement_def delete_gallery_def
      split: sum.splits)

lemma submit_contact_effect:
  "(fst (submit_contact now req d) = d \<and> snd (snd (submit_contact now req d)) \<noteq> 201)
   \<or> (\<exists>t r. contact_messages d = Some t
          \<and> fst (submit_contact now req d) =
              d\<lparr>contact_messages := Some \<lparr>rows = rows t @ [r], seq = msg_id r\<rparr>\<rparr>
          \<and> msg_id r = next_rowid msg_id t \<and> msg_created_at r = now
          \<and> snd (snd (submit_contact now req d)) = 201)"
proof (cases "\<exists>d' i. submit_contact now req d =
    (d', created ''Your message has been received! We will get back to you soon.'' i)
    \<and> (\<exists>a1 a2 a3 a4 a5 a6 n. insert_contact_messages now a1 a2 a3 a4 a5 a6 n d = Inr (d', i))")
  case True
  then obtain d' i a1 a2 a3 a4 a5 a6 n where
    s: "submit_contact now req d =
      (d', created ''Your message has been received! We will get back to you soon.'' i)"
    and ins: "insert_contact_messages now a1 a2 a3 a4 a5 a6 n d = Inr (d', i)"
    by blast
  from insert_contact_messages_appends [OF ins] obtain t where
    "contact_messages d = Some t"
    "d' = d\<lparr>contact_messages :=
            Some \<lparr>rows = rows t @ [last (rows (the (contact_messages d')))], seq = i\<rparr>\<rparr>"
    "msg_id (last (rows (the (contact_messages d')))) = i"
    "i = next_rowid msg_id t"
    "msg_created_at (last (rows (the (contact_messages d')))) = now"
    by blast
  with s have "contact_messages d = Some t
          \<and> fst (submit_contact now req d) =
              d\<lparr>contact_messages := Some \<lparr>rows = rows t @ [last (rows (the (contact_messages d')))],
                 seq = msg_id (last (rows (the (contact_messages d'))))\<rparr>\<rparr>
          \<and> msg_id (last (rows (the (contact_messages d')))) = next_rowid msg_id t
          \<and> msg_created_at (last (rows (the (contact_messages d')))) = now
          \<and> snd (snd (submit_contact now req d)) = 201"
    by (simp add: created_def)
  then show ?thesis by blast
next
  case False
  then have "fst (submit_contact now req d) = d \<and> snd (snd (submit_contact now req d)) \<noteq> 201"
    unfolding submit_contact_def
    by (auto split: option.splits json.splits sum.splits
        simp: failed_def error_response_def dest!: then_do_Inr)
  then show ?thesis by blast
qed

text \<open>
  C9. A contact message is never changed once it is stored. Every request to a route under
  \<^verbatim>\<open>/api\<close> other than \<^verbatim>\<open>POST /api/contact\<close> (the login, \<^verbatim>\<open>GET /api/contact\<close> and every
  faculty, achievement and gallery operation) leaves the \<^verbatim>\<open>contact_messages\<close> table exactly
  as it was. \<^verbatim>\<open>POST /api/contact\<close> either leaves it as it was (and does not answer 201), or
  answers 201 and appends one new row, created at the time of the request, after the
  existing rows, which stay as they were.
\<close>

theorem contact_messages_only_appended:
  "((\<forall>b. req \<noteq> Post_contact b) \<longrightarrow>
      contact_messages (fst (handle now req d)) = contact_messages d)
   \<and> ((contact_messages (fst (handle now (Post_contact body) d)) = contact_messages d
        \<and> snd (snd (handle now (Post_contact body) d)) \<noteq> 201)
      \<or> (\<exists>t r. contact_messages d = Some t
            \<and> contact_messages (fst (handle now (Post_contact body) d)) =
                Some \<lparr>rows = rows t @ [r], seq = msg_id r\<rparr>
            \<and> msg_created_at r = now
            \<and> snd (snd (handle now (Post_contact body) d)) = 201))"
proof (intro conjI impI)
  assume "\<forall>b. req \<noteq> Post_contact b"
  then show "contact_messages (fst (handle now req d)) = contact_messages d"
    by (cases req)
      (simp_all add: add_faculty_frame add_achievement_frame add_gallery_frame
        update_faculty_frame update_achievement_frame update_gallery_frame delete_frame)
next
  from submit_contact_effect [of now body d]
  show "(contact_messages (fst (handle now (Post_contact body) d)) = contact_messages d
        \<and> snd (snd (handle now (Post_contact body) d)) \<noteq> 201)
      \<or> (\<exists>t r. contact_messages d = Some t
            \<and> contact_messages (fst (handle now (Post_contact body) d)) =
                Some \<lparr>rows = rows t @ [r], seq = msg_id r\<rparr>
            \<and> msg_created_at r = now
            \<and> snd (snd (handle now (Post_contact body) d)) = 201)"
  proof (elim disjE exE conjE)
    assume "fst (submit_contact now body d) = d"
      and "snd (snd (submit_contact now body d)) \<noteq> 201"
    then show ?thesis by simp
  next
    fix t r
    assume "contact_messages d = Some t"
      and "fst (submit_contact now body d) =
             d\<lparr>contact_messages := Some \<lparr>rows = rows t @ [r], seq = msg_id r\<rparr>\<rparr>"
      and "msg_created_at r = now"
      and "snd (snd (submit_contact now body d)) = 201"
    then have "contact_messages d = Some t
            \<and> contact_messages (fst (handle now (Post_contact body) d)) =
                Some \<lparr>rows = rows t @ [r], seq = msg_id r\<rparr>
            \<and> msg_created_at r = now
            \<and> snd (snd (handle now (Post_contact body) d)) = 201"
      by simp
    then show ?thesis by blast
  qed
qed

theorem contact_messages_only_appended_witness:
  "contact_messages (fst (handle ''2024-05-01 09:00:00'' (Delete_faculty 1) example_db)) =
     contact_messages example_db
   \<and> contact_messages (fst (handle ''2024-05-01 09:00:00'' Get_contact example_db)) =
     contact_messages example_db"
  using contact_messages_only_appended [of "Delete_faculty 1" "''2024-05-01 09:00:00''" example_db]
    contact_messages_only_appended [of Get_contact "''2024-05-01 09:00:00''" example_db]
  by simp

subsection \<open>Creating and reading back\<close>

lemma fold_max_ge: "(s :: int) \<le> fold max xs s"
  by (induction xs arbitrary: s) (auto intro: order_trans [OF max.cobounded2])

lemma fold_max_mem: "x \<in> set xs \<Longrightarrow> (x :: int) \<le> fold max xs s"
proof (induction xs arbitrary: s)
  case Nil
  then show ?case by simp
next
  case (Cons y ys)
  show ?case
  proof (cases "x = y")
    case True
    have "x \<le> max x s" by simp
    also have "\<dots> \<le> fold max ys (max x s)" by (rule fold_max_ge)
    finally show ?thesis using True by simp
  next
    case False
    with Cons show ?thesis by simp
  qed
qed

lemma next_rowid_fresh: "r \<in> set (rows t) \<Longrightarrow> rowid r < next_rowid rowid t"
  using fold_max_mem [of "rowid r" "map rowid (rows t)" "seq t"]
  by (simp add: next_rowid_def)


lemma item_present: "map_of data k = Some v \<Longrightarrow> item data k = Inr v"
  by (simp add: item_def)



















subsection \<open>Updating\<close>

















subsection \<open>Initializing the schema\<close>

lemma create_if_not_exists_Some: "create_if_not_exists (Some t) = Some t"
  by (simp add: create_if_not_exists_def)

lemma seed_if_empty_nonempty: "rows t \<noteq> [] \<Longrightarrow> seed_if_empty seed (Some t) = Some t"
  by (simp add: seed_if_empty_def)

lemma init_db_populated:
  assumes "contact_messages d = Some tc" and "faculty d = Some tf" and "rows tf \<noteq> []"
    and "achievements d = Some ta" and "rows ta \<noteq> []"
    and "gallery d = Some tg" and "rows tg \<noteq> []"
  shows "init_db gallery_clock achievements_clock d = d"
  using assms
  by (simp add: init_db_def Let_def create_if_not_exists_Some seed_if_empty_nonempty)

lemma rows_store_gallery:
  "rows (fst (store_gallery u c e a now t)) =
     rows t @ [\<lparr>img_id = next_rowid img_id t, img_image_url = u, img_caption = c,
                img_event_date = e, img_is_active = a, img_created_at = now\<rparr>]"
  by (simp add: store_gallery_def append_row_def Let_def)

lemma rows_store_achievement:
  "rows (fst (store_achievement ic ti de ca a now t)) =
     rows t @ [\<lparr>ach_id = next_rowid ach_id t, ach_icon = ic, ach_title = ti,
                ach_description = de, ach_category = ca, ach_is_active = a,
                ach_created_at = now\<rparr>]"
  by (simp add: store_achievement_def append_row_def Let_def)

lemma rows_store_faculty:
  "rows (fst (store_faculty n g s b e h t)) =
     rows t @ [\<lparr>fac_id = next_rowid fac_id t, fac_name = n, fac_designation = g,
                fac_subject = s, fac_bio = b, fac_email = e, fac_is_hod = h\<rparr>]"
  by (simp add: store_faculty_def append_row_def Let_def)

lemma length_fold_gallery:
  "length (rows (fold (\<lambda>(k, image_url, caption, event_date) t.
             fst (store_gallery image_url caption (Some event_date) 1 (clock k) t)) xs t)) =
   length (rows t) + length xs"
  by (induction xs arbitrary: t) (auto simp: rows_store_gallery)

lemma length_fold_achievements:
  "length (rows (fold (\<lambda>(k, icon, title, description, category, is_active) t.
             fst (store_achievement (Some icon) title description (Some category) is_active
                    (clock k) t)) xs t)) =
   length (rows t) + length xs"
  by (induction xs arbitrary: t) (auto simp: rows_store_achievement)

lemma hods_fold_faculty:
  "map fac_is_hod (rows (fold (\<lambda>(name, designation, subject, bio, email, is_hod) t.
             fst (store_faculty name designation subject (Some bio) (Some email) is_hod t))
          xs t)) =
   map fac_is_hod (rows t) @ map (\<lambda>(name, designation, subject, bio, email, is_hod). is_hod) xs"
  by (induction xs arbitrary: t) (auto simp: rows_store_faculty)

lemma length_seed_gallery: "length (rows (seed_gallery clock t)) = length (rows t) + 6"
proof -
  have "length (rows (seed_gallery clock t)) = length (rows t) + length sample_gallery"
    unfolding seed_gallery_def by (simp only: length_fold_gallery length_enumerate)
  then show ?thesis by (simp add: sample_gallery_def)
qed

lemma length_seed_achievements:
  "length (rows (seed_achievements clock t)) = length (rows t) + 6"
proof -
  have "length (rows (seed_achievements clock t)) = length (rows t) + length sample_achievements"
    unfolding seed_achievements_def by (simp only: length_fold_achievements length_enumerate)
  then show ?thesis by (simp add: sample_achievements_def)
qed

lemma hods_seed_faculty:
  "map fac_is_hod (rows (seed_faculty t)) = map fac_is_hod (rows t) @ [1, 0, 0, 0, 0, 0, 0, 0, 0]"
proof -
  have "map fac_is_hod (rows (seed_faculty t)) =
      map fac_is_hod (rows t) @
      map (\<lambda>(name, designation, subject, bio, email, is_hod). is_hod) sample_faculty"
    unfolding seed_faculty_def by (simp only: hods_fold_faculty)
  then show ?thesis by (simp add: sample_faculty_def)
qed

lemma init_db_no_tables:
  "init_db gallery_clock achievements_clock no_tables =
     \<lparr>contact_messages = Some empty_table,
      faculty = Some (seed_faculty empty_table),
      achievements = Some (seed_achievements achievements_clock empty_table),
      gallery = Some (seed_gallery gallery_clock empty_table)\<rparr>"
  by (simp add: init_db_def no_tables_def Let_def create_if_not_exists_def seed_if_empty_def
      empty_table_def)

lemma length_seed_faculty: "length (rows (seed_faculty t)) = length (rows t) + 9"
  using arg_cong [OF hods_seed_faculty [of t], of length] by simp

lemma one_hod_seed_faculty:
  "length (filter (\<lambda>r. fac_is_hod r \<noteq> 0) (rows (seed_faculty empty_table))) = 1"
proof -
  have "length (filter (\<lambda>r. fac_is_hod r \<noteq> 0) (rows (seed_faculty empty_table))) =
      length (filter (\<lambda>h. h \<noteq> 0) (map fac_is_hod (rows (seed_faculty empty_table))))"
    by (simp add: filter_map comp_def)
  also have "\<dots> = 1"
    by (simp only: hods_seed_faculty) (simp add: empty_table_def)
  finally show ?thesis .
qed

lemma seeds_nonempty:
  "rows (seed_faculty t) \<noteq> []"
  "rows (seed_achievements clock ta) \<noteq> []"
  "rows (seed_gallery clock tg) \<noteq> []"
proof -
  have "0 < length (rows (seed_faculty t))" by (simp add: length_seed_faculty)
  then show "rows (seed_faculty t) \<noteq> []" by simp
  have "0 < length (rows (seed_achievements clock ta))" by (simp add: length_seed_achievements)
  then show "rows (seed_achievements clock ta) \<noteq> []" by simp
  have "0 < length (rows (seed_gallery clock tg))" by (simp add: length_seed_gallery)
  then show "rows (seed_gallery clock tg) \<noteq> []" by simp
qed

text \<open>
  C8. The schema initializer is idempotent. On a store where the four tables exist and the
  faculty, achievements and gallery tables are not empty it changes nothing. On a store
  with no table it creates the four tables, leaves \<^verbatim>\<open>contact_messages\<close> empty and seeds six
  gallery rows, six achievement rows and nine faculty rows, of which exactly one has isHod
  true. Running it again on the result, at any later time, changes nothing.
\<close>

theorem init_db_idempotent:
  "((contact_messages d = Some tc \<and> faculty d = Some tf \<and> rows tf \<noteq> []
       \<and> achievements d = Some ta \<and> rows ta \<noteq> [] \<and> gallery d = Some tg \<and> rows tg \<noteq> []) \<longrightarrow>
      init_db gallery_clock achievements_clock d = d)
   \<and> (\<exists>sc sf sa sg.
        init_db gallery_clock achievements_clock no_tables =
          \<lparr>contact_messages = Some sc, faculty = Some sf, achievements = Some sa,
           gallery = Some sg\<rparr>
        \<and> rows sc = [] \<and> length (rows sg) = 6 \<and> length (rows sa) = 6 \<and> length (rows sf) = 9
        \<and> length (filter (\<lambda>r. fac_is_hod r \<noteq> 0) (rows sf)) = 1)
   \<and> init_db gallery_clock' achievements_clock' (init_db gallery_clock achievements_clock no_tables) =
       init_db gallery_clock achievements_clock no_tables"
proof (intro conjI impI)
  assume "contact_messages d = Some tc \<and> faculty d = Some tf \<and> rows tf \<noteq> []
       \<and> achievements d = Some ta \<and> rows ta \<noteq> [] \<and> gallery d = Some tg \<and> rows tg \<noteq> []"
  then show "init_db gallery_clock achievements_clock d = d"
    by (intro init_db_populated) auto
next
  let ?sc = "empty_table :: contact_row table"
  let ?sf = "seed_faculty empty_table"
  let ?sa = "seed_achievements achievements_clock empty_table"
  let ?sg = "seed_gallery gallery_clock empty_table"
  have "init_db gallery_clock achievements_clock no_tables =
          \<lparr>contact_messages = Some ?sc, faculty = Some ?sf, achievements = Some ?sa,
           gallery = Some ?sg\<rparr>
        \<and> rows ?sc = [] \<and> length (rows ?sg) = 6 \<and> length (rows ?sa) = 6
        \<and> length (rows ?sf) = 9
        \<and> length (filter (\<lambda>r. fac_is_hod r \<noteq> 0) (rows ?sf)) = 1"
    by (simp add: init_db_no_tables length_seed_gallery length_seed_achievements
        length_seed_faculty one_hod_seed_faculty)
      (simp add: empty_table_def)
  then show "\<exists>sc sf sa sg.
        init_db gallery_clock achievements_clock no_tables =
          \<lparr>contact_messages = Some sc, faculty = Some sf, achievements = Some sa,
           gallery = Some sg\<rparr>
        \<and> rows sc = [] \<and> length (rows sg) = 6 \<and> length (rows sa) = 6 \<and> length (rows sf) = 9
        \<and> length (filter (\<lambda>r. fac_is_hod r \<noteq> 0) (rows sf)) = 1"
    by blast
next
  show "init_db gallery_clock' achievements_clock'
          (init_db gallery_clock achievements_clock no_tables) =
        init_db gallery_clock achievements_clock no_tables"
    unfolding init_db_no_tables
    by (rule init_db_populated
        [where tc = empty_table and tf = "seed_faculty empty_table"
           and ta = "seed_achievements achievements_clock empty_table"
           and tg = "seed_gallery gallery_clock empty_table"])
      (simp_all add: seeds_nonempty)
qed

theorem init_db_idempotent_witness:
  "init_db (\<lambda>k. ''2024-05-01 09:00:00'') (\<lambda>k. ''2024-05-01 09:00:00'') example_db = example_db"
  using init_db_idempotent
    [where d = example_db and tc = "the (contact_messages example_db)"
       and tf = "the (faculty example_db)" and ta = "the (achievements example_db)"
       and tg = "the (gallery example_db)", THEN conjunct1]
  by (simp add: example_db_def)

subsection \<open>Every reachable store is well formed\<close>

lemma table_ok_None: "table_ok rowid flg None"
  by (simp add: table_ok_def)

lemma table_ok_empty: "table_ok rowid flg (Some empty_table)"
  by (simp add: table_ok_def empty_table_def)

lemma table_ok_append:
  assumes "table_ok rowid flg (Some t)" and "rowid r = next_rowid rowid t"
    and "flg r = 0 \<or> flg r = 1"
  shows "table_ok rowid flg (Some \<lparr>rows = rows t @ [r], seq = s\<rparr>)"
proof -
  have "rowid r \<notin> rowid ` set (rows t)"
    using next_rowid_fresh [of _ t rowid] assms(2) by fastforce
  with assms show ?thesis by (auto simp: table_ok_def)
qed

lemma table_ok_delete:
  "table_ok rowid flg (Some t) \<Longrightarrow> table_ok rowid flg (Some (delete_row rowid i t))"
  by (auto simp: table_ok_def delete_row_def distinct_map_filter)

lemma flag_01: "flag v = 0 \<or> flag v = 1"
  by (simp add: flag_def)

lemma table_ok_store_faculty:
  "table_ok fac_id fac_is_hod (Some t) \<Longrightarrow> h = 0 \<or> h = 1 \<Longrightarrow>
   table_ok fac_id fac_is_hod (Some (fst (store_faculty n g s b e h t)))"
  unfolding store_faculty_def append_row_def Let_def fst_conv
  by (rule table_ok_append) simp_all

lemma table_ok_store_achievement:
  "table_ok ach_id ach_is_active (Some t) \<Longrightarrow> a = 0 \<or> a = 1 \<Longrightarrow>
   table_ok ach_id ach_is_active (Some (fst (store_achievement ic ti de ca a now t)))"
  unfolding store_achievement_def append_row_def Let_def fst_conv
  by (rule table_ok_append) simp_all

lemma table_ok_store_gallery:
  "table_ok img_id img_is_active (Some t) \<Longrightarrow> a = 0 \<or> a = 1 \<Longrightarrow>
   table_ok img_id img_is_active (Some (fst (store_gallery u c ev a now t)))"
  unfolding store_gallery_def append_row_def Let_def fst_conv
  by (rule table_ok_append) simp_all

lemma table_ok_store_contact:
  "table_ok msg_id msg_newsletter (Some t) \<Longrightarrow> nl = 0 \<or> nl = 1 \<Longrightarrow>
   table_ok msg_id msg_newsletter (Some (fst (store_contact f l e p s m nl now t)))"
  unfolding store_contact_def append_row_def Let_def fst_conv
  by (rule table_ok_append) simp_all

lemma table_ok_map:
  assumes "table_ok rowid flg (Some t)" and "\<And>r. rowid (f r) = rowid r"
    and "\<And>r. r \<in> set (rows t) \<Longrightarrow> flg (f r) = 0 \<or> flg (f r) = 1"
  shows "table_ok rowid flg (Some (t\<lparr>rows := map f (rows t)\<rparr>))"
proof -
  from assms(1) have d: "distinct (map rowid (rows t))"
    by (simp add: table_ok_def)
  have eq: "map rowid (map f (rows t)) = map rowid (rows t)"
    by (simp add: o_def assms(2))
  have "distinct (map rowid (map f (rows t)))"
    unfolding eq by (rule d)
  then show ?thesis
    using assms(3) by (simp add: table_ok_def)
qed

lemma table_ok_flag:
  "table_ok rowid flg (Some t) \<Longrightarrow> r \<in> set (rows t) \<Longrightarrow> flg r = 0 \<or> flg r = 1"
  by (simp add: table_ok_def)

lemma insert_contact_messages_ok:
  assumes "insert_contact_messages now a1 a2 a3 a4 a5 a6 n d = Inr (d', i)" and "db_ok d"
    and "n = 0 \<or> n = 1"
  shows "db_ok d'"
  using assms unfolding insert_contact_messages_def
  by (auto dest!: then_do_Inr table_of_Inr
      simp: db_ok_def store_contact_def append_row_def Let_def intro!: table_ok_append)

lemma insert_faculty_ok:
  assumes "insert_faculty a1 a2 a3 a4 a5 n d = Inr (d', i)" and "db_ok d" and "n = 0 \<or> n = 1"
  shows "db_ok d'"
  using assms unfolding insert_faculty_def
  by (auto dest!: then_do_Inr table_of_Inr
      simp: db_ok_def store_faculty_def append_row_def Let_def intro!: table_ok_append)

lemma insert_achievements_ok:
  assumes "insert_achievements now a1 a2 a3 a4 n d = Inr (d', i)" and "db_ok d"
    and "n = 0 \<or> n = 1"
  shows "db_ok d'"
  using assms unfolding insert_achievements_def
  by (auto dest!: then_do_Inr table_of_Inr
      simp: db_ok_def store_achievement_def append_row_def Let_def intro!: table_ok_append)

lemma insert_gallery_ok:
  assumes "insert_gallery now a1 a2 a3 n d = Inr (d', i)" and "db_ok d" and "n = 0 \<or> n = 1"
  shows "db_ok d'"
  using assms unfolding insert_gallery_def
  by (auto dest!: then_do_Inr table_of_Inr
      simp: db_ok_def store_gallery_def append_row_def Let_def intro!: table_ok_append)

lemma update_faculty_row_ok:
  assumes "update_faculty_row a1 a2 a3 a4 a5 n i d = Inr d'" and "db_ok d" and "n = 0 \<or> n = 1"
  shows "db_ok d'"
proof -
  have flags: "\<And>t r. faculty d = Some t \<Longrightarrow> r \<in> set (rows t) \<Longrightarrow> fac_is_hod r = 0 \<or> fac_is_hod r = 1"
    using assms(2) by (auto simp: db_ok_def table_ok_def)
  show ?thesis
    using assms flags unfolding update_faculty_row_def
    by (fastforce dest!: then_do_Inr table_of_Inr
        split: if_splits simp: db_ok_def intro!: table_ok_map)
qed

lemma update_achievements_row_ok:
  assumes "update_achievements_row a1 a2 a3 a4 n i d = Inr d'" and "db_ok d"
    and "n = 0 \<or> n = 1"
  shows "db_ok d'"
proof -
  have flags: "\<And>t r. achievements d = Some t \<Longrightarrow> r \<in> set (rows t) \<Longrightarrow> ach_is_active r = 0 \<or> ach_is_active r = 1"
    using assms(2) by (auto simp: db_ok_def table_ok_def)
  show ?thesis
    using assms flags unfolding update_achievements_row_def
    by (fastforce dest!: then_do_Inr table_of_Inr
        split: if_splits simp: db_ok_def intro!: table_ok_map)
qed

lemma update_gallery_row_ok:
  assumes "update_gallery_row a1 a2 a3 n i d = Inr d'" and "db_ok d" and "n = 0 \<or> n = 1"
  shows "db_ok d'"
proof -
  have flags: "\<And>t r. gallery d = Some t \<Longrightarrow> r \<in> set (rows t) \<Longrightarrow> img_is_active r = 0 \<or> img_is_active r = 1"
    using assms(2) by (auto simp: db_ok_def table_ok_def)
  show ?thesis
    using assms flags unfolding update_gallery_row_def
    by (fastforce dest!: then_do_Inr table_of_Inr
        split: if_splits simp: db_ok_def intro!: table_ok_map)
qed

lemma submit_contact_ok: "db_ok d \<Longrightarrow> db_ok (fst (submit_contact now req d))"
  unfolding submit_contact_def
  by (auto split: option.splits json.splits sum.splits dest!: then_do_Inr
      dest: insert_contact_messages_ok [OF _ _ flag_01])

lemma add_faculty_ok: "db_ok d \<Longrightarrow> db_ok (fst (add_faculty req d))"
  unfolding add_faculty_def
  by (auto split: option.splits json.splits sum.splits dest!: then_do_Inr
      dest: insert_faculty_ok [OF _ _ flag_01])

lemma add_achievement_ok: "db_ok d \<Longrightarrow> db_ok (fst (add_achievement now req d))"
  unfolding add_achievement_def
  by (auto split: option.splits json.splits sum.splits dest!: then_do_Inr
      dest: insert_achievements_ok [OF _ _ flag_01])

lemma add_gallery_ok: "db_ok d \<Longrightarrow> db_ok (fst (add_gallery now req d))"
  unfolding add_gallery_def
  by (auto split: option.splits json.splits sum.splits dest!: then_do_Inr
      dest: insert_gallery_ok [OF _ _ flag_01])

lemma update_faculty_ok: "db_ok d \<Longrightarrow> db_ok (fst (update_faculty i req d))"
  unfolding update_faculty_def
  by (auto split: option.splits json.splits sum.splits
      dest: update_faculty_row_ok [OF _ _ flag_01])

lemma update_achievement_ok: "db_ok d \<Longrightarrow> db_ok (fst (update_achievement i req d))"
  unfolding update_achievement_def
  by (auto split: option.splits json.splits sum.splits
      dest: update_achievements_row_ok [OF _ _ flag_01])

lemma update_gallery_ok: "db_ok d \<Longrightarrow> db_ok (fst (update_gallery i req d))"
  unfolding update_gallery_def
  by (auto split: option.splits json.splits sum.splits
      dest: update_gallery_row_ok [OF _ _ flag_01])

lemma delete_ok:
  "db_ok d \<Longrightarrow> db_ok (fst (delete_faculty i d))"
  "db_ok d \<Longrightarrow> db_ok (fst (delete_achievement i d))"
  "db_ok d \<Longrightarrow> db_ok (fst (delete_gallery i d))"
  by (auto simp: delete_faculty_def delete_achievement_def delete_gallery_def db_ok_def
      split: sum.splits dest!: then_do_Inr table_of_Inr intro: table_ok_delete)

lemma handle_ok: "db_ok d \<Longrightarrow> db_ok (fst (handle now req d))"
  by (cases req)
    (simp_all add: submit_contact_ok add_faculty_ok add_achievement_ok add_gallery_ok
      update_faculty_ok update_achievement_ok update_gallery_ok delete_ok)

lemma table_ok_seed_gallery:
  "table_ok img_id img_is_active (Some t) \<Longrightarrow>
   table_ok img_id img_is_active (Some (fold (\<lambda>(k, image_url, caption, event_date) t.
     fst (store_gallery image_url caption (Some event_date) 1 (clock k) t)) xs t))"
  by (induction xs arbitrary: t) (auto intro: table_ok_store_gallery)

lemma table_ok_seed_achievements:
  "table_ok ach_id ach_is_active (Some t) \<Longrightarrow>
   \<forall>(k, icon, title, description, category, is_active) \<in> set xs. is_active = 0 \<or> is_active = 1 \<Longrightarrow>
   table_ok ach_id ach_is_active (Some (fold (\<lambda>(k, icon, title, description, category, is_active) t.
     fst (store_achievement (Some icon) title description (Some category) is_active
            (clock k) t)) xs t))"
  by (induction xs arbitrary: t) (auto intro: table_ok_store_achievement)

lemma table_ok_seed_faculty:
  "table_ok fac_id fac_is_hod (Some t) \<Longrightarrow>
   \<forall>(name, designation, subject, bio, email, is_hod) \<in> set xs. is_hod = 0 \<or> is_hod = 1 \<Longrightarrow>
   table_ok fac_id fac_is_hod (Some (fold (\<lambda>(name, designation, subject, bio, email, is_hod) t.
     fst (store_faculty name designation subject (Some bio) (Some email) is_hod t)) xs t))"
  by (induction xs arbitrary: t) (auto intro: table_ok_store_faculty)

lemma seed_gallery_ok:
  "table_ok img_id img_is_active (Some t) \<Longrightarrow>
   table_ok img_id img_is_active (Some (seed_gallery clock t))"
  unfolding seed_gallery_def by (rule table_ok_seed_gallery)

lemma seed_achievements_ok:
  assumes "table_ok ach_id ach_is_active (Some t)"
  shows "table_ok ach_id ach_is_active (Some (seed_achievements clock t))"
  unfolding seed_achievements_def
proof (rule table_ok_seed_achievements [OF assms])
  show "\<forall>(k, icon, title, description, category, is_active)
          \<in> set (enumerate 0 sample_achievements). is_active = 0 \<or> is_active = 1"
    by (simp add: sample_achievements_def)
qed

lemma seed_faculty_ok:
  assumes "table_ok fac_id fac_is_hod (Some t)"
  shows "table_ok fac_id fac_is_hod (Some (seed_faculty t))"
  unfolding seed_faculty_def
proof (rule table_ok_seed_faculty [OF assms])
  show "\<forall>(name, designation, subject, bio, email, is_hod) \<in> set sample_faculty.
          is_hod = 0 \<or> is_hod = 1"
    by (simp add: sample_faculty_def)
qed

lemma table_ok_create:
  "table_ok rowid flg t \<Longrightarrow> table_ok rowid flg (create_if_not_exists t)"
  by (cases t) (simp_all add: create_if_not_exists_def table_ok_empty)

lemma table_ok_seed_if_empty:
  assumes "\<And>x. table_ok rowid flg (Some x) \<Longrightarrow> table_ok rowid flg (Some (seed x))"
    and "table_ok rowid flg t"
  shows "table_ok rowid flg (seed_if_empty seed t)"
  using assms by (cases t) (simp_all add: seed_if_empty_def)

lemma init_db_ok:
  assumes "db_ok d"
  shows "db_ok (init_db gallery_clock achievements_clock d)"
proof -
  from assms have ok: "table_ok msg_id msg_newsletter (contact_messages d)"
    "table_ok fac_id fac_is_hod (faculty d)"
    "table_ok ach_id ach_is_active (achievements d)"
    "table_ok img_id img_is_active (gallery d)"
    by (simp_all add: db_ok_def)
  have "table_ok msg_id msg_newsletter (create_if_not_exists (contact_messages d))"
    by (rule table_ok_create [OF ok(1)])
  moreover have "table_ok fac_id fac_is_hod
      (seed_if_empty seed_faculty (create_if_not_exists (faculty d)))"
    by (rule table_ok_seed_if_empty [OF seed_faculty_ok table_ok_create [OF ok(2)]])
  moreover have "table_ok ach_id ach_is_active
      (seed_if_empty (seed_achievements achievements_clock)
         (create_if_not_exists (achievements d)))"
    by (rule table_ok_seed_if_empty [OF seed_achievements_ok table_ok_create [OF ok(3)]])
  moreover have "table_ok img_id img_is_active
      (seed_if_empty (seed_gallery gallery_clock) (create_if_not_exists (gallery d)))"
    by (rule table_ok_seed_if_empty [OF seed_gallery_ok table_ok_create [OF ok(4)]])
  ultimately show ?thesis
    by (simp add: db_ok_def init_db_def Let_def)
qed

text \<open>
  Every store the program can reach is well formed, so the conditions on the flags and on
  the rowids under which the listings and the lookup by id are described above hold in
  all of them.
\<close>

theorem reachable_db_ok: "reachable d \<Longrightarrow> db_ok d"
proof (induction rule: reachable.induct)
  case fresh
  show ?case by (simp add: db_ok_def no_tables_def table_ok_None)
next
  case (start d gallery_clock achievements_clock)
  then show ?case by (simp add: init_db_ok)
next
  case (request d now req)
  then show ?case by (simp add: handle_ok)
qed

corollary reachable_flags_and_ids:
  assumes "reachable d"
  shows "faculty d = Some tf \<Longrightarrow>
           distinct (map fac_id (rows tf)) \<and> (\<forall>r \<in> set (rows tf). fac_is_hod r \<in> {0, 1})"
    and "achievements d = Some ta \<Longrightarrow> \<forall>r \<in> set (rows ta). ach_is_active r \<in> {0, 1}"
    and "gallery d = Some tg \<Longrightarrow> \<forall>r \<in> set (rows tg). img_is_active r \<in> {0, 1}"
  using reachable_db_ok [OF assms] by (auto simp: db_ok_def table_ok_def)


lemma example_db_ok: "db_ok example_db"
  by (simp add: db_ok_def table_ok_def example_db_def)

end
